theory Spec2Isabelle
  imports Complex_Main "HOL-Library.Monad_Syntax"
begin

section \<open>HumanSign keystroke notary: archive reader, scorers and verifier\<close>

text \<open>
  A shallow embedding of \<^verbatim>\<open>src/lib/securityUtils.ts\<close>, \<^verbatim>\<open>src/lib/fileHandler.ts\<close>,
  \<^verbatim>\<open>src/lib/aiDetector.ts\<close>, \<^verbatim>\<open>src/lib/analysisEngine.ts\<close> and
  \<^verbatim>\<open>src/hooks/useBiometricCapture.ts\<close>.

  Conventions of the embedding.
  \<^item> A JavaScript \<^verbatim>\<open>number\<close> is a \<^typ>\<open>real\<close> (IEEE rounding is not modelled); counts and
    \<^verbatim>\<open>Date.now()\<close> are \<^typ>\<open>nat\<close>.
  \<^item> A division whose denominator is not a literal goes through \<open>js_div\<close>, which
    yields \<open>None\<close> when the denominator is zero (JavaScript would produce \<^verbatim>\<open>NaN\<close> or an
    infinity there and carry on); a function that divides therefore returns an option, and
    \<open>None\<close> means that a division by zero was evaluated. Each such function is shown to
    return \<open>Some\<close> on every input. Where a denominator can be zero
    (\<open>calculateTextComplexity\<close>), the quotient is the value JavaScript computes, a
    \<open>jsnum\<close>, and the computation carries on as the code does.
  \<^item> The clock (\<^verbatim>\<open>Date.now()\<close>, \<^verbatim>\<open>performance.now()\<close>), the random session key and the
    digest \<^verbatim>\<open>crypto.subtle.digest('SHA-256', _)\<close> rendered in hex are parameters.
  \<^item> A \<^verbatim>\<open>string\<close> is a \<^typ>\<open>string\<close>; its \<^verbatim>\<open>.length\<close> is \<^const>\<open>length\<close>.
\<close>

subsection \<open>Numbers\<close>

definition js_div :: "real \<Rightarrow> real \<Rightarrow> real option" where
  "js_div a b = (if b = 0 then None else Some (a / b))"

text \<open>\<^verbatim>\<open>Math.round\<close>: the nearest integer, a tie going up.\<close>

definition Math_round :: "real \<Rightarrow> real" where
  "Math_round x = of_int \<lfloor>x + 1 / 2\<rfloor>"

text \<open>\<^verbatim>\<open>array.reduce((a, b) => a + b, 0)\<close>.\<close>

definition reduce_sum :: "real list \<Rightarrow> real" where
  "reduce_sum xs = foldl (\<lambda>a b. a + b) 0 xs"

text \<open>
  The results JavaScript gives where a denominator can be zero: a number, \<^verbatim>\<open>NaN\<close> or an
  infinity. \<open>js_quotient\<close> is \<^verbatim>\<open>a / b\<close> on two numbers (no negative zero arises from the
  counts that are divided here), \<open>js_times\<close> is \<^verbatim>\<open>x * c\<close> for a numeric literal \<open>c\<close>,
  \<open>js_plus\<close> is \<^verbatim>\<open>x + y\<close>, and \<open>js_less\<close>, \<open>js_greater\<close> are \<^verbatim>\<open>x < c\<close>, \<^verbatim>\<open>x > c\<close>.
\<close>

datatype jsnum = Num real | NaN | PosInfinity | NegInfinity

definition js_quotient :: "real \<Rightarrow> real \<Rightarrow> jsnum" where
  "js_quotient a b =
     (if b \<noteq> 0 then Num (a / b)
      else if a = 0 then NaN
      else if a > 0 then PosInfinity
      else NegInfinity)"

fun js_times :: "jsnum \<Rightarrow> real \<Rightarrow> jsnum" where
  "js_times (Num a) c = Num (a * c)"
| "js_times NaN c = NaN"
| "js_times PosInfinity c = (if c > 0 then PosInfinity else if c < 0 then NegInfinity else NaN)"
| "js_times NegInfinity c = (if c > 0 then NegInfinity else if c < 0 then PosInfinity else NaN)"

fun js_plus :: "jsnum \<Rightarrow> jsnum \<Rightarrow> jsnum" where
  "js_plus (Num a) (Num b) = Num (a + b)"
| "js_plus NaN y = NaN"
| "js_plus x NaN = NaN"
| "js_plus PosInfinity NegInfinity = NaN"
| "js_plus NegInfinity PosInfinity = NaN"
| "js_plus PosInfinity y = PosInfinity"
| "js_plus x PosInfinity = PosInfinity"
| "js_plus NegInfinity y = NegInfinity"
| "js_plus x NegInfinity = NegInfinity"

fun js_less :: "jsnum \<Rightarrow> real \<Rightarrow> bool" where
  "js_less (Num x) c = (x < c)"
| "js_less NaN c = False"
| "js_less PosInfinity c = False"
| "js_less NegInfinity c = True"

fun js_greater :: "jsnum \<Rightarrow> real \<Rightarrow> bool" where
  "js_greater (Num x) c = (x > c)"
| "js_greater NaN c = False"
| "js_greater PosInfinity c = True"
| "js_greater NegInfinity c = False"

subsection \<open>Strings\<close>

text \<open>
  \<^verbatim>\<open>text.split(re).filter(s => s.length > 0)\<close> for a pattern \<^verbatim>\<open>re\<close> that matches one or
  more delimiter characters: the maximal runs of characters that are not delimiters.
  The delimiters of \<^verbatim>\<open>/\s+/\<close> are the white space characters (among the characters below
  256: tab, line feed, vertical tab, form feed, carriage return, space and no-break space),
  those of \<^verbatim>\<open>/[.!?]+/\<close> the full stop, the exclamation mark and the question mark.
\<close>

fun split_runs :: "(char \<Rightarrow> bool) \<Rightarrow> string \<Rightarrow> string \<Rightarrow> string list" where
  "split_runs delimiter cur [] = (if cur = [] then [] else [cur])"
| "split_runs delimiter cur (c # cs) =
     (if delimiter c then (if cur = [] then [] else [cur]) @ split_runs delimiter [] cs
      else split_runs delimiter (cur @ [c]) cs)"

definition js_space :: "char \<Rightarrow> bool" where
  "js_space c = (of_char c \<in> set [9, 10, 11, 12, 13, 32, 160 :: nat])"

definition sentence_end :: "char \<Rightarrow> bool" where
  "sentence_end c = (c = CHR ''.'' \<or> c = CHR ''!'' \<or> c = CHR ''?'')"

definition split_words :: "string \<Rightarrow> string list" where
  "split_words text = split_runs js_space [] text"

definition count_words :: "string \<Rightarrow> nat" where
  "count_words text = length (split_words text)"

subsection \<open>Data model (\<^verbatim>\<open>src/types/index.ts\<close>)\<close>

text \<open>
  The payload of an event. Only the two properties that the library code reads are kept:
  \<^verbatim>\<open>key\<close> and \<^verbatim>\<open>pasteLength\<close>; both are optional in the interface.
\<close>

record event_data =
  key :: "string option"
  pasteLength :: "real option"

record KeystrokeEvent =
  e_id :: string
  e_timestamp :: real
  e_absoluteTime :: real
  e_type :: string
  e_sessionId :: string
  e_data :: event_data

text \<open>
  An element of \<^verbatim>\<open>metadata.events\<close> as \<^verbatim>\<open>JSON.parse\<close> delivers it, before any check:
  every property may be absent or \<^verbatim>\<open>null\<close> (\<open>None\<close>; the two behave alike under the
  truthiness and \<^verbatim>\<open>typeof\<close> tests of \<open>validateEventStructure\<close>), and a present one has the
  type the interface declares. Values of other types are not modelled.
\<close>

record json_event =
  j_id :: "string option"
  j_timestamp :: "real option"
  j_absoluteTime :: "real option"
  j_type :: "string option"
  j_sessionId :: "string option"
  j_data :: "event_data option"

text \<open>
  \<^verbatim>\<open>BiometricMetadata\<close>, over the kind of event it holds: \<^typ>\<open>KeystrokeEvent\<close> in the
  program, \<^typ>\<open>json_event\<close> in a document that has just been parsed.
\<close>

record 'e BiometricMetadata =
  version :: string
  events :: "'e list"
  sessionStart :: real
  sessionId :: string
  contentHash :: "string option"
  signature :: "string option"
  finalText :: string

record Metrics =
  totalEvents :: nat
  keyEvents :: nat
  pasteEvents :: nat
  backspaceCount :: nat
  averageTiming :: real
  timingVariance :: real
  sessionDuration :: real

record BiometricAnalysis =
  humanScore :: real
  b_verdict :: string
  anomalies :: "string list"
  metrics :: Metrics

record FileInfo =
  textLength :: nat
  wordCount :: nat
  eventCount :: nat
  fi_sessionDuration :: real

text \<open>
  The manifest. \<^verbatim>\<open>created\<close> and \<^verbatim>\<open>analysisTimestamp\<close> (clock readings that nothing reads
  back) are left out. A missing \<^verbatim>\<open>manifest.json\<close> parses as \<^verbatim>\<open>{}\<close>: every property
  \<open>None\<close>.
\<close>

record HumanSignManifest =
  m_sessionId :: "string option"
  m_contentHash :: "string option"
  m_signature :: "string option"
  m_analysis :: "BiometricAnalysis option"
  m_fileInfo :: "FileInfo option"

definition empty_manifest :: HumanSignManifest where
  "empty_manifest = \<lparr>m_sessionId = None, m_contentHash = None, m_signature = None,
     m_analysis = None, m_fileInfo = None\<rparr>"

subsection \<open>The archive\<close>

text \<open>
  A JSON member of the container: absent (or empty, which \<^verbatim>\<open>|| '{}'\<close> treats alike), text on
  which \<^verbatim>\<open>JSON.parse\<close> throws, or a document.
\<close>

datatype 'a member = Missing | Malformed | Doc 'a

text \<open>The container after \<^verbatim>\<open>JSZip.loadAsync\<close>; \<^verbatim>\<open>PROOF.md\<close> is never read back.\<close>

record zip_archive =
  content_txt :: "string option"
  metadata_json :: "json_event BiometricMetadata member"
  manifest_json :: "HumanSignManifest member"

text \<open>
  A \<^verbatim>\<open>File\<close>: its size in bytes and what \<^verbatim>\<open>loadAsync\<close> makes of its bytes (\<open>None\<close>: the
  promise rejects, the bytes are no container).
\<close>

record hsfile =
  file_size :: nat
  loadAsync :: "zip_archive option"

subsection \<open>\<^verbatim>\<open>SecurityUtils\<close>\<close>

definition isReplayAttack :: "nat \<Rightarrow> 'e BiometricMetadata \<Rightarrow> bool" where
  "isReplayAttack now metadata =
     (let fileAge = real now - sessionStart metadata
      in fileAge > 24 * 60 * 60 * 1000)"

text \<open>The loop \<^verbatim>\<open>for (i = 1; i < events.length; i++)\<close> of \<open>detectTimestampManipulation\<close>.\<close>

fun nonSequential :: "KeystrokeEvent list \<Rightarrow> bool" where
  "nonSequential (a # b # es) =
     (if e_timestamp b < e_timestamp a then True else nonSequential (b # es))"
| "nonSequential es = False"

definition detectTimestampManipulation :: "nat \<Rightarrow> KeystrokeEvent list \<Rightarrow> bool" where
  "detectTimestampManipulation now events' =
     (if length events' < 2 then False
      else if nonSequential events' then True
      else if list_ex (\<lambda>event. e_absoluteTime event > real now + 60000) events' then True
      else False)"

text \<open>Truthiness of a property, by the type it has when present.\<close>

definition truthy_string :: "string option \<Rightarrow> bool" where
  "truthy_string v = (case v of None \<Rightarrow> False | Some s \<Rightarrow> s \<noteq> [])"

definition truthy_number :: "real option \<Rightarrow> bool" where
  "truthy_number v = (case v of None \<Rightarrow> False | Some n \<Rightarrow> n \<noteq> 0)"

definition truthy_object :: "'a option \<Rightarrow> bool" where
  "truthy_object v = (case v of None \<Rightarrow> False | Some x \<Rightarrow> True)"

text \<open>\<^verbatim>\<open>typeof v === 'number'\<close>.\<close>

definition typeof_number :: "real option \<Rightarrow> bool" where
  "typeof_number v = (case v of None \<Rightarrow> False | Some n \<Rightarrow> True)"

definition valid_event :: "json_event \<Rightarrow> bool" where
  "valid_event event =
     (truthy_string (j_id event) \<and>
      truthy_number (j_timestamp event) \<and>
      truthy_number (j_absoluteTime event) \<and>
      truthy_string (j_type event) \<and>
      truthy_string (j_sessionId event) \<and>
      truthy_object (j_data event) \<and>
      typeof_number (j_timestamp event) \<and>
      typeof_number (j_absoluteTime event))"

definition validateEventStructure :: "json_event list \<Rightarrow> bool" where
  "validateEventStructure events' = list_all valid_event events'"

text \<open>\<^verbatim>\<open>content.replace(/c/g, r)\<close> for a one-character pattern.\<close>

definition replace_char :: "char \<Rightarrow> string \<Rightarrow> string \<Rightarrow> string" where
  "replace_char c r s = concat (map (\<lambda>x. if x = c then r else [x]) s)"

definition sanitizeContent :: "string \<Rightarrow> string" where
  "sanitizeContent content =
     replace_char (CHR ''/'') ''&#x2F;''
       (replace_char (CHR 0x27) ''&#x27;''
         (replace_char (CHR 0x22) ''&quot;''
           (replace_char (CHR ''>'') ''&gt;''
             (replace_char (CHR ''<'') ''&lt;'' content))))"

subsection \<open>Reading an archive (\<^verbatim>\<open>FileHandler.readHumanSignFile\<close>)\<close>

text \<open>
  The view of a parsed event through its declared type. It is defined exactly when the six
  properties are present, which \<open>validateEventStructure\<close> has established by the time the
  reader hands the metadata on; at run time it is the identity on the object.
\<close>

definition as_event :: "json_event \<Rightarrow> KeystrokeEvent option" where
  "as_event j =
     (case (j_id j, j_timestamp j, j_absoluteTime j) of
        (Some i, Some t, Some a) \<Rightarrow>
          (case (j_type j, j_sessionId j, j_data j) of
             (Some ty, Some s, Some d) \<Rightarrow>
               Some \<lparr>e_id = i, e_timestamp = t, e_absoluteTime = a, e_type = ty,
                     e_sessionId = s, e_data = d\<rparr>
           | _ \<Rightarrow> None)
      | _ \<Rightarrow> None)"

fun as_events :: "json_event list \<Rightarrow> KeystrokeEvent list option" where
  "as_events [] = Some []"
| "as_events (j # js) =
     (case as_event j of None \<Rightarrow> None
      | Some e \<Rightarrow> (case as_events js of None \<Rightarrow> None | Some es \<Rightarrow> Some (e # es)))"

text \<open>The inverse view, the image of an event under \<^verbatim>\<open>JSON.stringify\<close> and \<^verbatim>\<open>JSON.parse\<close>.\<close>

definition to_json_event :: "KeystrokeEvent \<Rightarrow> json_event" where
  "to_json_event e =
     \<lparr>j_id = Some (e_id e), j_timestamp = Some (e_timestamp e),
      j_absoluteTime = Some (e_absoluteTime e), j_type = Some (e_type e),
      j_sessionId = Some (e_sessionId e), j_data = Some (e_data e)\<rparr>"

definition with_events :: "'a BiometricMetadata \<Rightarrow> 'b list \<Rightarrow> 'b BiometricMetadata" where
  "with_events m es =
     \<lparr>version = version m, events = es, sessionStart = sessionStart m,
      sessionId = sessionId m, contentHash = contentHash m, signature = signature m,
      finalText = finalText m\<rparr>"

text \<open>
  What the \<^verbatim>\<open>catch\<close> block of the reader logs before it throws the one generic
  \<^verbatim>\<open>Error('Invalid or malicious HumanSign file')\<close>: the cause of the rejection.
\<close>

datatype read_cause =
  ZipError | FileTooLarge | JsonSyntaxError | EventsUndefined |
  InvalidEventStructure | TimestampManipulation | ReplayAttack

text \<open>The operations on the container, in the order the reader performs them.\<close>

datatype zip_op = LoadContainer | ReadMember string | ParseJson string

record parsed_file =
  p_text :: string
  p_metadata :: "KeystrokeEvent BiometricMetadata"
  p_manifest :: HumanSignManifest

definition read_members :: "zip_op list" where
  "read_members =
     [ReadMember ''content.txt'', ReadMember ''metadata.json'', ReadMember ''manifest.json'']"

text \<open>The checks that follow the two \<^verbatim>\<open>JSON.parse\<close> calls.\<close>

definition securityValidations ::
  "nat \<Rightarrow> string \<Rightarrow> json_event BiometricMetadata option \<Rightarrow> HumanSignManifest \<Rightarrow>
   read_cause + parsed_file" where
  "securityValidations now text metadata manifest =
     (case metadata of
        None \<Rightarrow> Inl EventsUndefined
      | Some md \<Rightarrow>
          if \<not> validateEventStructure (events md) then Inl InvalidEventStructure
          else (case as_events (events md) of
                  None \<Rightarrow> Inl InvalidEventStructure
                | Some es \<Rightarrow>
                    if detectTimestampManipulation now es then Inl TimestampManipulation
                    else if isReplayAttack now md then Inl ReplayAttack
                    else Inr \<lparr>p_text = sanitizeContent text,
                              p_metadata = with_events md es,
                              p_manifest = manifest\<rparr>))"

text \<open>
  The reader returns the container operations it performed and its outcome. \<open>now\<close> is the
  reading of \<^verbatim>\<open>Date.now()\<close>. A missing \<^verbatim>\<open>metadata.json\<close> parses as \<^verbatim>\<open>{}\<close>, on which
  \<^verbatim>\<open>metadata.events.every\<close> throws a \<^verbatim>\<open>TypeError\<close> (\<open>EventsUndefined\<close>).
\<close>

definition JSON_parse_metadata ::
  "json_event BiometricMetadata member \<Rightarrow> read_cause + json_event BiometricMetadata option" where
  "JSON_parse_metadata m =
     (case m of Missing \<Rightarrow> Inr None | Malformed \<Rightarrow> Inl JsonSyntaxError | Doc d \<Rightarrow> Inr (Some d))"

definition JSON_parse_manifest :: "HumanSignManifest member \<Rightarrow> read_cause + HumanSignManifest" where
  "JSON_parse_manifest m =
     (case m of Missing \<Rightarrow> Inr empty_manifest | Malformed \<Rightarrow> Inl JsonSyntaxError | Doc d \<Rightarrow> Inr d)"

definition readHumanSignFile :: "nat \<Rightarrow> hsfile \<Rightarrow> zip_op list \<times> (read_cause + parsed_file)" where
  "readHumanSignFile now file =
     (case loadAsync file of
        None \<Rightarrow> ([LoadContainer], Inl ZipError)
      | Some zipContent \<Rightarrow>
          if file_size file > 10 * 1024 * 1024 then ([LoadContainer], Inl FileTooLarge)
          else
            let text = (case content_txt zipContent of None \<Rightarrow> [] | Some t \<Rightarrow> t) in
            (case JSON_parse_metadata (metadata_json zipContent) of
               Inl c \<Rightarrow> (LoadContainer # read_members @ [ParseJson ''metadata.json''], Inl c)
             | Inr metadata \<Rightarrow>
                 (case JSON_parse_manifest (manifest_json zipContent) of
                    Inl c \<Rightarrow>
                      (LoadContainer # read_members @
                         [ParseJson ''metadata.json'', ParseJson ''manifest.json''], Inl c)
                  | Inr manifest \<Rightarrow>
                      (LoadContainer # read_members @
                         [ParseJson ''metadata.json'', ParseJson ''manifest.json''],
                       securityValidations now text metadata manifest))))"

subsection \<open>Hashing and signing (\<^verbatim>\<open>CryptoUtils\<close>)\<close>

text \<open>A non-negative integer in decimal, as \<^verbatim>\<open>JSON.stringify\<close> and template strings print it.\<close>

definition digit_char :: "nat \<Rightarrow> char" where
  "digit_char d = char_of (48 + d)"

fun show_nat :: "nat \<Rightarrow> string" where
  "show_nat n = (if n < 10 then [digit_char n] else show_nat (n div 10) @ [digit_char (n mod 10)])"

declare show_nat.simps [simp del]

definition hex_char :: "nat \<Rightarrow> char" where
  "hex_char d = (if d < 10 then char_of (48 + d) else char_of (87 + d))"

text \<open>The escapes of \<^verbatim>\<open>JSON.stringify\<close> on a string (quote, backslash, control characters).\<close>

definition json_escape :: "char \<Rightarrow> string" where
  "json_escape c =
     (if c = CHR 0x22 then [CHR 0x5C, CHR 0x22]
      else if c = CHR 0x5C then [CHR 0x5C, CHR 0x5C]
      else if c = CHR 0x08 then [CHR 0x5C, CHR ''b'']
      else if c = CHR 0x09 then [CHR 0x5C, CHR ''t'']
      else if c = CHR 0x0A then [CHR 0x5C, CHR ''n'']
      else if c = CHR 0x0C then [CHR 0x5C, CHR ''f'']
      else if c = CHR 0x0D then [CHR 0x5C, CHR ''r'']
      else if of_char c < (32 :: nat)
        then [CHR 0x5C, CHR ''u'', CHR ''0'', CHR ''0'',
              hex_char (of_char c div 16), hex_char (of_char c mod 16)]
      else [c])"

definition json_string :: "string \<Rightarrow> string" where
  "json_string s = [CHR 0x22] @ concat (map json_escape s) @ [CHR 0x22]"

definition json_string_or_null :: "string option \<Rightarrow> string" where
  "json_string_or_null v = (case v of None \<Rightarrow> ''null'' | Some s \<Rightarrow> json_string s)"

text \<open>
  \<^verbatim>\<open>JSON.stringify(signatureData)\<close> for the object literal of \<open>createSignature\<close>, whose
  \<^verbatim>\<open>timestamp\<close> property is the clock reading \<open>now\<close>.
\<close>

definition stringify_signatureData :: "nat \<Rightarrow> 'e BiometricMetadata \<Rightarrow> string" where
  "stringify_signatureData now metadata =
     ''{'' @ json_string ''sessionId'' @ '':'' @ json_string (sessionId metadata) @ '','' @
     json_string ''contentHash'' @ '':'' @ json_string_or_null (contentHash metadata) @ '','' @
     json_string ''eventCount'' @ '':'' @ show_nat (length (events metadata)) @ '','' @
     json_string ''finalTextLength'' @ '':'' @ show_nat (length (finalText metadata)) @ '','' @
     json_string ''timestamp'' @ '':'' @ show_nat now @ ''}''"

text \<open>
  \<open>createHash\<close>, the hex SHA-256 digest of a string, is the parameter of everything that
  hashes. \<open>createSignature\<close> reads the clock: \<open>now\<close> is that reading.
\<close>

definition createSignature ::
  "(string \<Rightarrow> string) \<Rightarrow> nat \<Rightarrow> 'e BiometricMetadata \<Rightarrow> string \<Rightarrow> string" where
  "createSignature createHash now metadata secretKey =
     (let signatureString = stringify_signatureData now metadata @ secretKey
      in createHash signatureString)"

definition verifySignature ::
  "(string \<Rightarrow> string) \<Rightarrow> nat \<Rightarrow> 'e BiometricMetadata \<Rightarrow> string \<Rightarrow> string \<Rightarrow> bool" where
  "verifySignature createHash now metadata signature' secretKey =
     (let expectedSignature = createSignature createHash now metadata secretKey
      in signature' = expectedSignature)"

text \<open>
  \<open>generateSecretKey\<close> from the clock reading and the UUID it draws:
  \<^verbatim>\<open>`hs_${Date.now().toString(36)}_${randomUUID().replace(/-/g, '')}`.slice(0, 32)\<close>.
\<close>

definition base36_char :: "nat \<Rightarrow> char" where
  "base36_char d = (if d < 10 then char_of (48 + d) else char_of (87 + d))"

fun toString36 :: "nat \<Rightarrow> string" where
  "toString36 n =
     (if n < 36 then [base36_char n] else toString36 (n div 36) @ [base36_char (n mod 36)])"

declare toString36.simps [simp del]

definition generateSecretKey :: "nat \<Rightarrow> string \<Rightarrow> string" where
  "generateSecretKey now uuid =
     (let randomPart = filter (\<lambda>c. c \<noteq> CHR ''-'') uuid;
          timestamp = toString36 now
      in take 32 (''hs_'' @ timestamp @ ''_'' @ randomPart))"

subsection \<open>The behavioural scorer (\<^verbatim>\<open>FileHandler\<close>)\<close>

text \<open>
  The loop over consecutive key-down events that keeps the intervals in \<open>(0, 5000)\<close>; the
  same loop is \<open>AIDetector.calculateTimings\<close>.
\<close>

fun calculateTimings :: "KeystrokeEvent list \<Rightarrow> real list" where
  "calculateTimings (a # b # es) =
     (let timing = e_timestamp b - e_timestamp a
      in (if timing > 0 \<and> timing < 5000 then [timing] else []) @ calculateTimings (b # es))"
| "calculateTimings es = []"

definition calculateVariance :: "real list \<Rightarrow> real option" where
  "calculateVariance numbers =
     (if length numbers = 0 then Some 0
      else do {
        mean \<leftarrow> js_div (reduce_sum numbers) (real (length numbers));
        let squaredDiffs = map (\<lambda>n. (n - mean) ^ 2) numbers;
        variance \<leftarrow> js_div (reduce_sum squaredDiffs) (real (length numbers));
        Some (Math_round (variance * 100) / 100)
      })"

definition is_type :: "string \<Rightarrow> KeystrokeEvent \<Rightarrow> bool" where
  "is_type t e = (e_type e = t)"

definition is_backspace :: "KeystrokeEvent \<Rightarrow> bool" where
  "is_backspace e = (e_type e = ''keydown'' \<and> key (e_data e) = Some ''Backspace'')"

definition preProcessEvents :: "KeystrokeEvent list \<Rightarrow> Metrics option" where
  "preProcessEvents events' =
     (let keyEvents' = filter (\<lambda>e. e_type e = ''keydown'' \<or> e_type e = ''keyup'') events';
          pasteEvents' = filter (is_type ''paste'') events';
          keyDownEvents = filter (is_type ''keydown'') events';
          timings = calculateTimings keyDownEvents
      in do {
        averageTiming' \<leftarrow>
          (if length timings > 0 then js_div (reduce_sum timings) (real (length timings))
           else Some 0);
        timingVariance' \<leftarrow> calculateVariance timings;
        Some \<lparr>totalEvents = length events',
              keyEvents = length keyEvents',
              pasteEvents = length pasteEvents',
              backspaceCount = length (filter is_backspace events'),
              averageTiming = averageTiming',
              timingVariance = timingVariance',
              sessionDuration =
                (case events' of [] \<Rightarrow> 0
                 | e0 # rest \<Rightarrow> (e_absoluteTime (last events') - e_absoluteTime e0) / 1000)\<rparr>
      })"

definition behavioural_verdict :: "real \<Rightarrow> string" where
  "behavioural_verdict humanScore' =
     (if humanScore' \<ge> 80 then ''VERIFIED_HUMAN''
      else if humanScore' \<ge> 60 then ''LIKELY_HUMAN''
      else if humanScore' \<ge> 40 then ''SUSPICIOUS''
      else if humanScore' \<ge> 20 then ''LIKELY_AI''
      else ''DETECTED_AI'')"

text \<open>
  \<open>analyzeBiometrics\<close>: the score and the anomaly list are threaded through the four
  checks as a pair. \<^verbatim>\<open>analysisTimestamp\<close> is left out.
\<close>

definition analyzeBiometrics :: "KeystrokeEvent BiometricMetadata \<Rightarrow> BiometricAnalysis option" where
  "analyzeBiometrics metadata =
     do {
       processed \<leftarrow> preProcessEvents (events metadata);
       let s0 = ((100 :: real), ([] :: string list));
       let s1 = (if pasteEvents processed > 0
                 then (fst s0 - real (pasteEvents processed) * 10,
                       snd s0 @ [''Detected '' @ show_nat (pasteEvents processed) @ '' paste events''])
                 else s0);
       let s2 = (if timingVariance processed < 10 \<and> keyEvents processed > 20
                 then (fst s1 - 30, snd s1 @ [''Extremely consistent typing rhythm detected''])
                 else s1);
       avgSpeed \<leftarrow> js_div (real (keyEvents processed)) (max (sessionDuration processed) 1);
       let s3 = (if avgSpeed > 15
                 then (fst s2 - 20, snd s2 @ [''Unusually high typing speed detected''])
                 else s2);
       backspaceRatio \<leftarrow>
         js_div (real (backspaceCount processed)) (real (max (keyEvents processed) 1));
       let s4 = (if backspaceRatio < 0.02 \<and> keyEvents processed > 50
                 then (fst s3 - 15, snd s3 @ [''Very few corrections made''])
                 else s3);
       Some \<lparr>humanScore = max 0 (min 100 (fst s4)),
             b_verdict = behavioural_verdict (fst s4),
             anomalies = snd s4,
             metrics = processed\<rparr>
     }"

subsection \<open>The AI-likelihood scorer (\<^verbatim>\<open>AIDetector\<close>)\<close>

record RhythmFeatures =
  avgInterval :: real
  variance :: real
  maxPause :: real
  minPause :: real
  consistency :: real
  thinkingPauses :: nat

definition calculateRhythmFeatures :: "real list \<Rightarrow> RhythmFeatures option" where
  "calculateRhythmFeatures timings =
     (if length timings = 0
      then Some \<lparr>avgInterval = 0, variance = 0, maxPause = 0, minPause = 0,
                 consistency = 0, thinkingPauses = 0\<rparr>
      else do {
        avgInterval' \<leftarrow> js_div (reduce_sum timings) (real (length timings));
        meanSquare \<leftarrow>
          js_div (reduce_sum (map (\<lambda>t. (t - avgInterval') ^ 2) timings)) (real (length timings));
        let variance' = sqrt meanSquare;
        let thinkingPauses' = length (filter (\<lambda>t. t > 1000) timings);
        consistency' \<leftarrow> js_div variance' avgInterval';
        Some \<lparr>avgInterval = avgInterval', variance = variance',
              maxPause = foldr max (tl timings) (hd timings),
              minPause = foldr min (tl timings) (hd timings),
              consistency = consistency', thinkingPauses = thinkingPauses'\<rparr>
      })"

text \<open>The loop \<^verbatim>\<open>for (i = 2; i < timings.length; i++)\<close> of \<open>detectBurstPatterns\<close>.\<close>

fun burstCount :: "real list \<Rightarrow> nat" where
  "burstCount (a # b # c # ts) =
     (if a < 100 \<and> b < 100 \<and> c > 500 then 1 else 0) + burstCount (b # c # ts)"
| "burstCount ts = 0"

definition detectBurstPatterns :: "real list \<Rightarrow> real option" where
  "detectBurstPatterns timings =
     (if length timings < 3 then Some 0
      else js_div (real (burstCount timings)) (real (length timings - 2)))"

text \<open>\<^verbatim>\<open>e.data.pasteLength || 0\<close>.\<close>

definition pasteLength_or_0 :: "KeystrokeEvent \<Rightarrow> real" where
  "pasteLength_or_0 e = (case pasteLength (e_data e) of None \<Rightarrow> 0 | Some n \<Rightarrow> n)"

text \<open>
  \<open>calculateTextComplexity\<close>: guarded against the empty text only, it divides by the
  number of words and by the number of sentences, either of which can be zero.
\<close>

definition calculateTextComplexity :: "string \<Rightarrow> jsnum" where
  "calculateTextComplexity text =
     (if text = [] then Num 0
      else
        let words = split_words text;
            sentences = split_runs sentence_end [] text;
            avgWordLength =
              js_quotient (foldl (\<lambda>sum w. sum + real (length w)) 0 words) (real (length words));
            avgSentenceLength = js_quotient (real (length words)) (real (length sentences))
        in js_plus (js_times avgWordLength 0.6) (js_times avgSentenceLength 0.4))"

definition calculateWordLengthVariance :: "string \<Rightarrow> real option" where
  "calculateWordLengthVariance text =
     (let words = split_words text
      in if length words = 0 then Some 0
         else
           let wordLengths = map (\<lambda>w. real (length w)) words
           in do {
             avgLength \<leftarrow> js_div (reduce_sum wordLengths) (real (length wordLengths));
             variance' \<leftarrow>
               js_div (reduce_sum (map (\<lambda>l. (l - avgLength) ^ 2) wordLengths))
                 (real (length wordLengths));
             Some (sqrt variance')
           })"

text \<open>
  The feature object is a JavaScript object literal read back by property name, so it is an
  association list from property names to values; a name that the literal does not define
  reads as \<^verbatim>\<open>undefined\<close> (\<open>None\<close>).
\<close>

type_synonym Features = "(string \<times> jsnum) list"

definition extractFeatures :: "KeystrokeEvent BiometricMetadata \<Rightarrow> Features option" where
  "extractFeatures metadata =
     (let events' = events metadata;
          keyEvents' = filter (is_type ''keydown'') events';
          pasteEvents' = filter (is_type ''paste'') events';
          timings = calculateTimings keyEvents';
          backspaceCount' = length (filter is_backspace events');
          pasteLength' = foldl (\<lambda>sum e. sum + pasteLength_or_0 e) 0 pasteEvents'
      in do {
        rhythmFeatures \<leftarrow> calculateRhythmFeatures timings;
        backspaceRatio \<leftarrow> js_div (real backspaceCount') (real (max (length keyEvents') 1));
        pasteRatio \<leftarrow> js_div pasteLength' (real (max (length (finalText metadata)) 1));
        eventDensity \<leftarrow>
          js_div (real (length keyEvents')) (real (max (length (finalText metadata)) 1));
        burstPattern \<leftarrow> detectBurstPatterns timings;
        wordLengthVariance \<leftarrow> calculateWordLengthVariance (finalText metadata);
        Some [(''avgKeyInterval'', Num (avgInterval rhythmFeatures)),
              (''timingVariance'', Num (variance rhythmFeatures)),
              (''maxPause'', Num (maxPause rhythmFeatures)),
              (''minPause'', Num (minPause rhythmFeatures)),
              (''backspaceRatio'', Num backspaceRatio),
              (''pasteRatio'', Num pasteRatio),
              (''eventDensity'', Num eventDensity),
              (''rhythmConsistency'', Num (consistency rhythmFeatures)),
              (''burstPattern'', Num burstPattern),
              (''thinkingPauses'', Num (real (thinkingPauses rhythmFeatures))),
              (''textComplexity'', calculateTextComplexity (finalText metadata)),
              (''wordLengthVariance'', Num wordLengthVariance)]
      })"

text \<open>
  \<^verbatim>\<open>features.p < c\<close> and \<^verbatim>\<open>features.p > c\<close>: a comparison with \<^verbatim>\<open>undefined\<close> is false.
\<close>

definition prop_less :: "Features \<Rightarrow> string \<Rightarrow> real \<Rightarrow> bool" where
  "prop_less features p c =
     (case map_of features p of None \<Rightarrow> False | Some x \<Rightarrow> js_less x c)"

definition prop_greater :: "Features \<Rightarrow> string \<Rightarrow> real \<Rightarrow> bool" where
  "prop_greater features p c =
     (case map_of features p of None \<Rightarrow> False | Some x \<Rightarrow> js_greater x c)"

definition predictAIProbability :: "Features \<Rightarrow> real" where
  "predictAIProbability features =
     (let aiScore = 0;
          aiScore = (if prop_less features ''consistency'' 0.3 then aiScore + 25
                     else if prop_less features ''consistency'' 0.5 then aiScore + 15
                     else aiScore);
          aiScore = (if prop_greater features ''burstPattern'' 0.1 then aiScore + 20 else aiScore);
          aiScore = (if prop_less features ''backspaceRatio'' 0.02 then aiScore + 15 else aiScore);
          aiScore = (if prop_greater features ''pasteRatio'' 0.1 then aiScore + 20 else aiScore);
          aiScore = (if prop_greater features ''eventDensity'' 2.0 then aiScore + 10 else aiScore);
          aiScore = (if prop_less features ''thinkingPauses'' 2 \<and>
                        prop_less features ''avgKeyInterval'' 200
                     then aiScore + 10 else aiScore)
      in min 100 aiScore)"

record AIAnalysis =
  aiProbability :: real
  humanProbability :: real
  redFlags :: "string list"
  features :: Features
  confidence :: real

definition analyzeForAI :: "KeystrokeEvent BiometricMetadata \<Rightarrow> AIAnalysis option" where
  "analyzeForAI metadata =
     do {
       features' \<leftarrow> extractFeatures metadata;
       let aiProbability' = predictAIProbability features';
       let redFlags' =
         (if prop_less features' ''consistency'' 0.3
          then [''Extremely consistent typing rhythm detected''] else []) @
         (if prop_greater features' ''burstPattern'' 0.1
          then [''Burst typing pattern suggests automated input''] else []) @
         (if prop_less features' ''backspaceRatio'' 0.02 \<and> length (events metadata) > 50
          then [''Very few corrections made, unusual for human typing''] else []) @
         (if prop_greater features' ''pasteRatio'' 0.1
          then [''Significant paste operations detected''] else []) @
         (if prop_less features' ''thinkingPauses'' 2 \<and> length (events metadata) > 100
          then [''Lack of natural thinking pauses''] else []);
       Some \<lparr>aiProbability = aiProbability',
             humanProbability = 100 - aiProbability',
             redFlags = redFlags',
             features = features',
             confidence = \<bar>aiProbability' - 50\<bar> * 2\<rparr>
     }"

text \<open>
  The points each rule of \<open>predictAIProbability\<close> adds to the score, rule by rule.
\<close>

definition points_consistency :: "Features \<Rightarrow> real" where
  "points_consistency f =
     (if prop_less f ''consistency'' 0.3 then 25
      else if prop_less f ''consistency'' 0.5 then 15 else 0)"

definition points_burst :: "Features \<Rightarrow> real" where
  "points_burst f = (if prop_greater f ''burstPattern'' 0.1 then 20 else 0)"

definition points_corrections :: "Features \<Rightarrow> real" where
  "points_corrections f = (if prop_less f ''backspaceRatio'' 0.02 then 15 else 0)"

definition points_paste :: "Features \<Rightarrow> real" where
  "points_paste f = (if prop_greater f ''pasteRatio'' 0.1 then 20 else 0)"

definition points_density :: "Features \<Rightarrow> real" where
  "points_density f = (if prop_greater f ''eventDensity'' 2.0 then 10 else 0)"

definition points_pauses :: "Features \<Rightarrow> real" where
  "points_pauses f =
     (if prop_less f ''thinkingPauses'' 2 \<and> prop_less f ''avgKeyInterval'' 200 then 10 else 0)"

subsection \<open>Packaging (\<^verbatim>\<open>FileHandler.createHumanSignFile\<close>)\<close>

text \<open>
  \<open>createHumanSignFile\<close> with its two sources of nondeterminism as arguments: the key from
  \<open>generateSecretKey\<close> and the clock reading \<open>now\<close> inside \<open>createSignature\<close>. The members
  \<^verbatim>\<open>metadata.json\<close> and \<^verbatim>\<open>manifest.json\<close> hold what \<^verbatim>\<open>JSON.parse\<close> recovers from the
  text \<^verbatim>\<open>JSON.stringify\<close> wrote. \<^verbatim>\<open>PROOF.md\<close> is not modelled.
\<close>

definition createHumanSignFile ::
  "(string \<Rightarrow> string) \<Rightarrow> string \<Rightarrow> nat \<Rightarrow> string \<Rightarrow> KeystrokeEvent BiometricMetadata \<Rightarrow>
   zip_archive option" where
  "createHumanSignFile createHash secretKey now text metadata =
     (let contentHash' = createHash text;
          metadata = metadata\<lparr>contentHash := Some contentHash'\<rparr>;
          signature' = createSignature createHash now metadata secretKey;
          metadata = metadata\<lparr>signature := Some signature'\<rparr>
      in do {
        analysis \<leftarrow> analyzeBiometrics metadata;
        let manifest =
          \<lparr>m_sessionId = Some (sessionId metadata),
           m_contentHash = Some contentHash',
           m_signature = Some signature',
           m_analysis = Some analysis,
           m_fileInfo = Some \<lparr>textLength = length text,
                               wordCount = count_words text,
                               eventCount = length (events metadata),
                               fi_sessionDuration = sessionDuration (metrics analysis)\<rparr>\<rparr>;
        Some \<lparr>content_txt = Some text,
              metadata_json = Doc (with_events metadata (map to_json_event (events metadata))),
              manifest_json = Doc manifest\<rparr>
      })"

subsection \<open>The forensic verifier (\<^verbatim>\<open>AnalysisEngine\<close>)\<close>

datatype VerdictType = VERIFIED_HUMAN | AI_DETECTED | PASTE_DETECTED | MIXED_CONTENT | INVALID

definition verifyCryptographicIntegrity ::
  "(string \<Rightarrow> string) \<Rightarrow> nat \<Rightarrow> KeystrokeEvent BiometricMetadata \<Rightarrow> HumanSignManifest \<Rightarrow> bool" where
  "verifyCryptographicIntegrity createHash now metadata manifest =
     (case (m_signature manifest, m_contentHash manifest) of
        (Some signature', Some contentHash') \<Rightarrow>
          if signature' = [] \<or> contentHash' = [] then False
          else
            let currentHash = createHash (finalText metadata) in
            if currentHash \<noteq> contentHash' then False
            else
              let simulatedKey = ''human_sign_demo_key_2024'';
                  signatureValid = verifySignature createHash now metadata signature' simulatedKey
              in signatureValid
      | _ \<Rightarrow> False)"

text \<open>The gap loop of \<open>analyzeEventGaps\<close>; only \<^verbatim>\<open>hasSuspiciousGaps\<close> is read.\<close>

fun hasSuspiciousGaps :: "KeystrokeEvent list \<Rightarrow> bool" where
  "hasSuspiciousGaps (a # b # es) =
     (let gap = e_timestamp b - e_timestamp a
      in (if gap > 30000 then True else hasSuspiciousGaps (b # es)))"
| "hasSuspiciousGaps es = False"

definition reconstructContentFromEvents :: "KeystrokeEvent list \<Rightarrow> string" where
  "reconstructContentFromEvents events' =
     (let keyEvents' =
            filter (\<lambda>e. e_type e = ''keydown'' \<and>
                        (case key (e_data e) of None \<Rightarrow> False
                         | Some k \<Rightarrow> k \<noteq> [] \<and> length k = 1)) events'
      in foldl (\<lambda>reconstructed event.
                  reconstructed @ (case key (e_data event) of None \<Rightarrow> [] | Some k \<Rightarrow> k))
           [] keyEvents')"

text \<open>\<^verbatim>\<open>new Set(timestamps).size !== timestamps.length\<close>.\<close>

definition checkDuplicateTimestamps :: "KeystrokeEvent list \<Rightarrow> bool" where
  "checkDuplicateTimestamps events' =
     (let timestamps = map e_timestamp events'
      in length (remdups timestamps) \<noteq> length timestamps)"

text \<open>The unfiltered intervals between consecutive key-down events.\<close>

fun rawTimings :: "KeystrokeEvent list \<Rightarrow> real list" where
  "rawTimings (a # b # es) = (e_timestamp b - e_timestamp a) # rawTimings (b # es)"
| "rawTimings es = []"

definition calculateMean :: "real list \<Rightarrow> real option" where
  "calculateMean numbers = js_div (reduce_sum numbers) (real (length numbers))"

definition calculateStd :: "real list \<Rightarrow> real option" where
  "calculateStd numbers =
     do {
       mean \<leftarrow> calculateMean numbers;
       let squaredDiffs = map (\<lambda>n. (n - mean) ^ 2) numbers;
       variance' \<leftarrow> js_div (reduce_sum squaredDiffs) (real (length numbers));
       Some (sqrt variance')
     }"

text \<open>
  \<open>analyzeTimingPatterns\<close>, its \<^verbatim>\<open>unrealistic\<close> flag. The quotient \<^verbatim>\<open>variance / mean\<close> is
  not guarded: where the mean is zero it is \<^verbatim>\<open>NaN\<close> or \<^verbatim>\<open>+Infinity\<close> (the deviation is
  never negative), and \<^verbatim>\<open>coefficient < 0.1\<close> is false.
\<close>

definition analyzeTimingPatterns :: "KeystrokeEvent list \<Rightarrow> bool" where
  "analyzeTimingPatterns events' =
     (let keyEvents' = filter (is_type ''keydown'') events';
          timings = rawTimings keyEvents';
          superhumanCount = length (filter (\<lambda>t. t < 10) timings);
          unrealistic = (if superhumanCount > 5 then True else False);
          unrealistic =
            (if length timings > 10
             then (case do { variance' \<leftarrow> calculateStd timings;
                             mean \<leftarrow> calculateMean timings;
                             js_div variance' mean } of
                     None \<Rightarrow> unrealistic
                   | Some coefficient \<Rightarrow> if coefficient < 0.1 then True else unrealistic)
             else unrealistic)
      in unrealistic)"

fun verifyEventSequence :: "KeystrokeEvent list \<Rightarrow> bool" where
  "verifyEventSequence (a # b # es) =
     (if e_timestamp a > e_timestamp b then False else verifyEventSequence (b # es))"
| "verifyEventSequence es = True"

text \<open>The warnings of \<open>detectTampering\<close>, in order; it returns whether there is any.\<close>

definition tamperWarnings ::
  "KeystrokeEvent BiometricMetadata \<Rightarrow> HumanSignManifest \<Rightarrow> string \<Rightarrow> string list" where
  "tamperWarnings metadata manifest content =
     (let sessionDuration' =
            (case events metadata of [] \<Rightarrow> 0
             | e0 # rest \<Rightarrow> e_absoluteTime (last (events metadata)) - e_absoluteTime e0)
      in (if length (events metadata) = 0 then [''No biometric events recorded''] else []) @
         (if sessionDuration' < 1000 \<and> length (events metadata) > 50
          then [''Unnaturally fast typing detected''] else []) @
         (if hasSuspiciousGaps (events metadata)
          then [''Suspicious timing gaps in events''] else []) @
         (if reconstructContentFromEvents (events metadata) \<noteq> content
          then [''Content does not match recorded events''] else []) @
         (if checkDuplicateTimestamps (events metadata)
          then [''Duplicate timestamps detected - possible data fabrication''] else []) @
         (if analyzeTimingPatterns (events metadata)
          then [''Unrealistic timing patterns detected''] else []) @
         (if \<not> verifyEventSequence (events metadata)
          then [''Event sequence integrity compromised''] else []))"

definition detectTampering ::
  "KeystrokeEvent BiometricMetadata \<Rightarrow> HumanSignManifest \<Rightarrow> string \<Rightarrow> bool" where
  "detectTampering metadata manifest content =
     (length (tamperWarnings metadata manifest content) > 0)"

definition determineEnhancedVerdict :: "real \<Rightarrow> bool \<Rightarrow> bool \<Rightarrow> AIAnalysis \<Rightarrow> VerdictType" where
  "determineEnhancedVerdict humanScore' cryptoValid isTampered' aiAnalysis' =
     (if \<not> cryptoValid then INVALID
      else if isTampered' then INVALID
      else
        let adjustedScore =
              (if aiProbability aiAnalysis' > 70 then humanScore' - 30
               else if aiProbability aiAnalysis' > 50 then humanScore' - 15
               else humanScore')
        in if adjustedScore \<ge> 75 then VERIFIED_HUMAN
           else if adjustedScore \<ge> 50 then MIXED_CONTENT
           else if adjustedScore \<ge> 25 then PASTE_DETECTED
           else AI_DETECTED)"

record FileAnalysisResult =
  isValid :: bool
  isTampered :: bool
  r_humanScore :: real
  verdict :: VerdictType
  r_anomalies :: "string list"
  r_manifest :: HumanSignManifest
  r_metadata :: "KeystrokeEvent BiometricMetadata"
  content :: string
  biometricAnalysis :: BiometricAnalysis
  aiAnalysis :: AIAnalysis

text \<open>
  \<open>analyzeHumanSignFile\<close>. \<open>Some (Inl c)\<close>: the reader rejected the file for cause \<open>c\<close> and
  \<^verbatim>\<open>Error('Failed to analyze file')\<close> is thrown; \<open>Some (Inr r)\<close>: the result \<open>r\<close>. \<open>now\<close> is
  the clock, taken not to advance during the call.
\<close>

definition analyzeHumanSignFile ::
  "(string \<Rightarrow> string) \<Rightarrow> nat \<Rightarrow> hsfile \<Rightarrow> (read_cause + FileAnalysisResult) option" where
  "analyzeHumanSignFile createHash now file =
     (case snd (readHumanSignFile now file) of
        Inl c \<Rightarrow> Some (Inl c)
      | Inr parsed \<Rightarrow>
          let text = p_text parsed; metadata = p_metadata parsed; manifest = p_manifest parsed;
              cryptoValid = verifyCryptographicIntegrity createHash now metadata manifest;
              isTampered' = detectTampering metadata manifest text
          in do {
            biometricAnalysis' \<leftarrow> analyzeBiometrics metadata;
            aiAnalysis' \<leftarrow> analyzeForAI metadata;
            let combinedHumanScore =
                  max 0 (humanScore biometricAnalysis' - aiProbability aiAnalysis');
            let verdict' =
                  determineEnhancedVerdict combinedHumanScore cryptoValid isTampered' aiAnalysis';
            let allAnomalies = anomalies biometricAnalysis' @ redFlags aiAnalysis';
            Some (Inr \<lparr>isValid = (cryptoValid \<and> \<not> isTampered'),
                        isTampered = isTampered',
                        r_humanScore = combinedHumanScore,
                        verdict = verdict',
                        r_anomalies = allAnomalies,
                        r_manifest = manifest,
                        r_metadata = metadata,
                        content = text,
                        biometricAnalysis = biometricAnalysis',
                        aiAnalysis = aiAnalysis'\<rparr>)
          })"

text \<open>
  Packaging a text and its metadata, then analysing the archive as it is; \<open>size'\<close> is
  the size of the blob that JSZip generates.
\<close>

definition roundtrip ::
  "(string \<Rightarrow> string) \<Rightarrow> string \<Rightarrow> nat \<Rightarrow> nat \<Rightarrow> nat \<Rightarrow> string \<Rightarrow>
   KeystrokeEvent BiometricMetadata \<Rightarrow> (read_cause + FileAnalysisResult) option" where
  "roundtrip createHash secretKey signedAt now size' text metadata =
     do {
       zipContent \<leftarrow> createHumanSignFile createHash secretKey signedAt text metadata;
       analyzeHumanSignFile createHash now \<lparr>file_size = size', loadAsync = Some zipContent\<rparr>
     }"

subsection \<open>The capture session (\<^verbatim>\<open>useBiometricCapture\<close>)\<close>

record KeyTiming =
  kt_key :: string
  kt_timestamp :: real
  kt_timing :: real

text \<open>The React state and the refs of the hook, as one record.\<close>

record capture =
  c_text :: string
  c_events :: "KeystrokeEvent list"
  isCapturing :: bool
  sessionStartRef :: nat
  lastKeyTimeRef :: real
  keyTimingsRef :: "KeyTiming list"
  backspaceCountRef :: nat
  pasteCountRef :: nat

text \<open>What \<open>createEvent\<close> reads from its environment: a fresh UUID and the two clocks.\<close>

record stamp =
  randomUUID :: string
  performance_now :: real
  Date_now :: nat

definition createEvent :: "stamp \<Rightarrow> capture \<Rightarrow> string \<Rightarrow> event_data \<Rightarrow> KeystrokeEvent" where
  "createEvent st c type' data' =
     \<lparr>e_id = randomUUID st,
      e_timestamp = performance_now st,
      e_absoluteTime = real (Date_now st),
      e_type = type',
      e_sessionId = ''session-'' @ show_nat (sessionStartRef c),
      e_data = data'\<rparr>"

definition startCapture :: "nat \<Rightarrow> capture \<Rightarrow> capture" where
  "startCapture now c =
     c\<lparr>isCapturing := True, sessionStartRef := now, lastKeyTimeRef := 0, keyTimingsRef := [],
       backspaceCountRef := 0, pasteCountRef := 0, c_events := []\<rparr>"

definition stopCapture :: "capture \<Rightarrow> capture" where
  "stopCapture c = c\<lparr>isCapturing := False\<rparr>"

definition setText :: "string \<Rightarrow> capture \<Rightarrow> capture" where
  "setText t c = c\<lparr>c_text := t\<rparr>"

text \<open>
  \<open>handleKeyDown\<close> for the key \<open>k\<close>; \<open>now\<close> is its own reading of \<^verbatim>\<open>performance.now()\<close>,
  \<open>st\<close> what \<open>createEvent\<close> reads afterwards.
\<close>

definition handleKeyDown :: "real \<Rightarrow> stamp \<Rightarrow> string \<Rightarrow> capture \<Rightarrow> capture" where
  "handleKeyDown now st k c =
     (if \<not> isCapturing c then c
      else
        let timing = (if lastKeyTimeRef c > 0 then now - lastKeyTimeRef c else 0);
            c = c\<lparr>lastKeyTimeRef := now\<rparr>;
            c = (if length k = 1 \<or> k = ''Backspace'' \<or> k = ''Enter''
                 then
                   let pushed = keyTimingsRef c @
                                  [\<lparr>kt_key = k, kt_timestamp = now, kt_timing = timing\<rparr>]
                   in c\<lparr>keyTimingsRef :=
                          (if length pushed > 100 then drop (length pushed - 100) pushed
                           else pushed)\<rparr>
                 else c);
            c = (if k = ''Backspace'' then c\<lparr>backspaceCountRef := backspaceCountRef c + 1\<rparr>
                 else c);
            event = createEvent st c ''keydown'' \<lparr>key = Some k, pasteLength = None\<rparr>
        in c\<lparr>c_events := c_events c @ [event]\<rparr>)"

definition handleKeyUp :: "stamp \<Rightarrow> string \<Rightarrow> capture \<Rightarrow> capture" where
  "handleKeyUp st k c =
     (if \<not> isCapturing c then c
      else
        let event = createEvent st c ''keyup'' \<lparr>key = Some k, pasteLength = None\<rparr>
        in c\<lparr>c_events := c_events c @ [event]\<rparr>)"

definition handlePaste :: "stamp \<Rightarrow> string \<Rightarrow> capture \<Rightarrow> capture" where
  "handlePaste st pasteData c =
     (if \<not> isCapturing c then c
      else
        let c = c\<lparr>pasteCountRef := pasteCountRef c + 1\<rparr>;
            event = createEvent st c ''paste''
                      \<lparr>key = None, pasteLength = Some (real (length pasteData))\<rparr>
        in c\<lparr>c_events := c_events c @ [event]\<rparr>)"

definition handleCopy :: "stamp \<Rightarrow> capture \<Rightarrow> capture" where
  "handleCopy st c =
     (if \<not> isCapturing c then c
      else
        let event = createEvent st c ''copy'' \<lparr>key = None, pasteLength = None\<rparr>
        in c\<lparr>c_events := c_events c @ [event]\<rparr>)"

definition handleCut :: "stamp \<Rightarrow> capture \<Rightarrow> capture" where
  "handleCut st c =
     (if \<not> isCapturing c then c
      else
        let event = createEvent st c ''cut'' \<lparr>key = None, pasteLength = None\<rparr>
        in c\<lparr>c_events := c_events c @ [event]\<rparr>)"

definition getBiometricMetadata :: "capture \<Rightarrow> KeystrokeEvent BiometricMetadata" where
  "getBiometricMetadata c =
     \<lparr>version = ''1.0.0'',
      events = c_events c,
      sessionStart = real (sessionStartRef c),
      sessionId = ''session-'' @ show_nat (sessionStartRef c),
      contentHash = None,
      signature = None,
      finalText = c_text c\<rparr>"

text \<open>The two extensions \<^verbatim>\<open>Math.mean\<close> and \<^verbatim>\<open>Math.std\<close>.\<close>

definition Math_mean :: "real list \<Rightarrow> real option" where
  "Math_mean array = js_div (reduce_sum array) (real (length array))"

definition Math_std :: "real list \<Rightarrow> real option" where
  "Math_std array =
     do {
       mean \<leftarrow> Math_mean array;
       meanSquare \<leftarrow>
         js_div (foldl (\<lambda>sq n. sq + (n - mean) ^ 2) 0 array) (real (length array));
       Some (sqrt meanSquare)
     }"

definition calculateHumanConfidence :: "nat \<Rightarrow> nat \<Rightarrow> real \<Rightarrow> nat \<Rightarrow> nat \<Rightarrow> real option" where
  "calculateHumanConfidence backspaces pastes variance' pauses totalKeys' =
     do {
       let score = (100 :: real);
       let score = (if pastes > 0 then score - real pastes * 15 else score);
       backspaceRatio \<leftarrow>
         (if totalKeys' > 0 then js_div (real backspaces) (real totalKeys') else Some 0);
       let score = (if backspaceRatio > 0.05 \<and> backspaceRatio < 0.2 then score + 10
                    else if backspaceRatio = 0 then score - 20
                    else score);
       let score = (if variance' > 20 \<and> variance' < 80 then score + 15
                    else if variance' \<le> 5 then score - 25
                    else score);
       let score = (if pauses > 2 then score + 10 else score);
       Some (max 0 (min 100 score))
     }"

record LiveStats =
  ls_totalKeys :: nat
  ls_backspaceCount :: nat
  ls_pasteCount :: nat
  ls_avgSpeed :: real
  ls_currentSpeed :: real
  ls_variance :: real
  ls_thinkingPauses :: nat
  ls_sessionDuration :: real
  ls_lastKeyTiming :: real
  ls_typingRhythm :: "real list"
  ls_humanConfidence :: real

text \<open>\<open>calculateStats\<close>, the value it hands to \<^verbatim>\<open>setStats\<close>; \<open>now\<close> is \<^verbatim>\<open>Date.now()\<close>.\<close>

definition calculateStats :: "nat \<Rightarrow> capture \<Rightarrow> LiveStats option" where
  "calculateStats now c =
     (let sessionDuration' = (real now - real (sessionStartRef c)) / 1000;
          words = count_words (c_text c);
          minutes = sessionDuration' / 60;
          timings = filter (\<lambda>t. t > 0 \<and> t < 5000) (map kt_timing (keyTimingsRef c));
          thinkingPauses' = length (filter (\<lambda>timing. timing > 1000) timings)
      in do {
        currentSpeed \<leftarrow>
          (if minutes > 0 then map_option Math_round (js_div (real words) minutes) else Some 0);
        variance' \<leftarrow>
          (if length timings > 1
           then do {
             std \<leftarrow> Math_std timings;
             mean \<leftarrow> Math_mean timings;
             quotient \<leftarrow> js_div std mean;
             Some (Math_round (quotient * 100))
           }
           else Some 0);
        humanConfidence \<leftarrow>
          calculateHumanConfidence (backspaceCountRef c) (pasteCountRef c) variance'
            thinkingPauses' (length timings);
        Some \<lparr>ls_totalKeys = length (filter (is_type ''keydown'') (c_events c)),
              ls_backspaceCount = backspaceCountRef c,
              ls_pasteCount = pasteCountRef c,
              ls_avgSpeed = currentSpeed,
              ls_currentSpeed = currentSpeed,
              ls_variance = variance',
              ls_thinkingPauses = thinkingPauses',
              ls_sessionDuration = Math_round sessionDuration',
              ls_lastKeyTiming = (if timings = [] then 0 else last timings),
              ls_typingRhythm = drop (length timings - 20) timings,
              ls_humanConfidence = humanConfidence\<rparr>
      })"

text \<open>
  The state of the hook when it mounts (\<open>t0\<close> is the clock then), and a session as the
  actions applied to it in order.
\<close>

definition mounted :: "nat \<Rightarrow> capture" where
  "mounted t0 = \<lparr>c_text = [], c_events = [], isCapturing = False, sessionStartRef = t0,
               lastKeyTimeRef = 0, keyTimingsRef = [], backspaceCountRef = 0,
               pasteCountRef = 0\<rparr>"

datatype action =
  Start nat | Stop | SetText string | KeyDown real stamp string | KeyUp stamp string |
  Paste stamp string | Copy stamp | Cut stamp

fun step :: "capture \<Rightarrow> action \<Rightarrow> capture" where
  "step c (Start now) = startCapture now c"
| "step c Stop = stopCapture c"
| "step c (SetText t) = setText t c"
| "step c (KeyDown now st k) = handleKeyDown now st k c"
| "step c (KeyUp st k) = handleKeyUp st k c"
| "step c (Paste st pasteData) = handlePaste st pasteData c"
| "step c (Copy st) = handleCopy st c"
| "step c (Cut st) = handleCut st c"

definition run :: "nat \<Rightarrow> action list \<Rightarrow> capture" where
  "run t0 actions = foldl step (mounted t0) actions"

text \<open>Counters and ring are empty as long as no event has been recorded.\<close>

definition fresh :: "capture \<Rightarrow> bool" where
  "fresh c = (c_events c = [] \<longrightarrow> keyTimingsRef c = [] \<and> backspaceCountRef c = 0 \<and> pasteCountRef c = 0)"

subsection \<open>Example archives and sessions\<close>

definition sample_json_event :: "real \<Rightarrow> real \<Rightarrow> json_event" where
  "sample_json_event t a =
     \<lparr>j_id = Some ''e1'', j_timestamp = Some t, j_absoluteTime = Some a,
      j_type = Some ''keydown'', j_sessionId = Some ''session-900'',
      j_data = Some \<lparr>key = Some ''a'', pasteLength = None\<rparr>\<rparr>"

definition sample_json_metadata :: "json_event list \<Rightarrow> json_event BiometricMetadata" where
  "sample_json_metadata es =
     \<lparr>version = ''1.0.0'', events = es, sessionStart = 900, sessionId = ''session-900'',
      contentHash = None, signature = None, finalText = ''a''\<rparr>"

definition sample_file :: "nat \<Rightarrow> json_event list \<Rightarrow> hsfile" where
  "sample_file n es =
     \<lparr>file_size = n,
      loadAsync = Some \<lparr>content_txt = Some ''a'',
                        metadata_json = Doc (sample_json_metadata es),
                        manifest_json = Missing\<rparr>\<rparr>"

definition sample_event :: "real \<Rightarrow> real \<Rightarrow> KeystrokeEvent" where
  "sample_event t a =
     \<lparr>e_id = ''e1'', e_timestamp = t, e_absoluteTime = a, e_type = ''keydown'',
      e_sessionId = ''session-900'', e_data = \<lparr>key = Some ''a'', pasteLength = None\<rparr>\<rparr>"

definition sample_metadata :: "KeystrokeEvent list \<Rightarrow> KeystrokeEvent BiometricMetadata" where
  "sample_metadata es =
     \<lparr>version = ''1.0.0'', events = es, sessionStart = 900, sessionId = ''session-900'',
      contentHash = None, signature = None, finalText = ''a''\<rparr>"

text \<open>
  An archive that was not produced by \<open>createHumanSignFile\<close>: its manifest is signed with
  the key the verifier uses, at the instant 1000 at which it will be verified, under the
  identity function in the place of the digest.
\<close>

definition forged_manifest :: HumanSignManifest where
  "forged_manifest =
     \<lparr>m_sessionId = Some ''session-900'',
      m_contentHash = Some ''a'',
      m_signature = Some (createSignature id 1000 (sample_metadata [sample_event 5 950])
                            ''human_sign_demo_key_2024''),
      m_analysis = None, m_fileInfo = None\<rparr>"

definition forged_file :: hsfile where
  "forged_file =
     \<lparr>file_size = 500,
      loadAsync = Some \<lparr>content_txt = Some ''a'',
                        metadata_json = Doc (sample_json_metadata [sample_json_event 5 950]),
                        manifest_json = Doc forged_manifest\<rparr>\<rparr>"

definition paste_event :: "real \<Rightarrow> real \<Rightarrow> real \<Rightarrow> KeystrokeEvent" where
  "paste_event t a n =
     \<lparr>e_id = ''p1'', e_timestamp = t, e_absoluteTime = a, e_type = ''paste'',
      e_sessionId = ''session-900'', e_data = \<lparr>key = None, pasteLength = Some n\<rparr>\<rparr>"

text \<open>
  Sixteen key-down events ten milliseconds apart, the first at the wall-clock time 1000.
\<close>

definition key_at :: "nat \<Rightarrow> KeystrokeEvent" where
  "key_at i =
     \<lparr>e_id = ''k'' @ show_nat i, e_timestamp = 10 * real i, e_absoluteTime = 1000 + 10 * real i,
      e_type = ''keydown'', e_sessionId = ''session-900'',
      e_data = \<lparr>key = Some ''a'', pasteLength = None\<rparr>\<rparr>"

definition rapid_keys :: "KeystrokeEvent list" where
  "rapid_keys =
     [key_at 0, key_at 1, key_at 2, key_at 3, key_at 4, key_at 5, key_at 6, key_at 7,
      key_at 8, key_at 9, key_at 10, key_at 11, key_at 12, key_at 13, key_at 14, key_at 15]"

text \<open>Metadata without events whose final text is one space.\<close>

definition blank_metadata :: "KeystrokeEvent BiometricMetadata" where
  "blank_metadata =
     \<lparr>version = ''1.0.0'', events = [], sessionStart = 900, sessionId = ''session-900'',
      contentHash = None, signature = None, finalText = '' ''\<rparr>"

text \<open>A session in which the only key pressed is Backspace.\<close>

definition backspace_session :: capture where
  "backspace_session =
     handleKeyDown 100 \<lparr>randomUUID = ''e1'', performance_now = 100, Date_now = 1100\<rparr>
       ''Backspace'' (startCapture 1000 (mounted 900))"

subsection \<open>The claims in their own words\<close>

text \<open>
  The verdict rule as the specification words it: the combined score is
  \<open>max 0 (behavioural - ai)\<close>; a failed crypto check or detected tampering gives
  \<open>INVALID\<close>; otherwise the score is reduced by 30 if the AI probability is above 70, else
  by 15 if it is above 50, and thresholded at 75, 50 and 25.
\<close>

definition spec_verdict :: "real \<Rightarrow> real \<Rightarrow> bool \<Rightarrow> bool \<Rightarrow> VerdictType" where
  "spec_verdict behavioralScore aiProbability' cryptoValid tampered =
     (let combinedScore = max 0 (behavioralScore - aiProbability')
      in if \<not> cryptoValid \<or> tampered then INVALID
         else
           let score = combinedScore -
                         (if aiProbability' > 70 then 30
                          else if aiProbability' > 50 then 15 else 0)
           in if score \<ge> 75 then VERIFIED_HUMAN
              else if score \<ge> 50 then MIXED_CONTENT
              else if score \<ge> 25 then PASTE_DETECTED
              else AI_DETECTED)"

text \<open>
  The human-confidence heuristic as the specification words it, over the number of paste
  events, of backspaces and of key-down events, the variance and the number of thinking
  pauses.
\<close>

definition spec_humanConfidence :: "nat \<Rightarrow> nat \<Rightarrow> nat \<Rightarrow> real \<Rightarrow> nat \<Rightarrow> real" where
  "spec_humanConfidence pastes backspaces keyDowns variance' pauses =
     (let score = 100 - 15 * real pastes;
          ratio = (if keyDowns = 0 then 0 else real backspaces / real keyDowns);
          score = score + (if 0.05 < ratio \<and> ratio < 0.20 then 10 else 0)
                        - (if ratio = 0 then 20 else 0);
          score = score + (if 20 < variance' \<and> variance' < 80 then 15 else 0)
                        - (if variance' \<le> 5 then 25 else 0);
          score = score + (if pauses > 2 then 10 else 0)
      in max 0 (min 100 score))"

section \<open>Properties\<close>

lemmas reader_defs =
  readHumanSignFile_def securityValidations_def JSON_parse_metadata_def JSON_parse_manifest_def

lemmas validate_defs =
  validateEventStructure_def valid_event_def truthy_string_def truthy_number_def
  truthy_object_def typeof_number_def

lemmas sample_file_defs = sample_file_def sample_json_metadata_def sample_json_event_def

lemmas sample_defs = sample_metadata_def sample_event_def

lemmas security_defs =
  as_event_def detectTimestampManipulation_def isReplayAttack_def with_events_def
  sanitizeContent_def replace_char_def

lemmas biometric_defs =
  analyzeBiometrics_def preProcessEvents_def calculateVariance_def is_type_def is_backspace_def
  behavioural_verdict_def js_div_def reduce_sum_def Math_round_def

lemmas ai_defs =
  analyzeForAI_def extractFeatures_def calculateRhythmFeatures_def detectBurstPatterns_def
  predictAIProbability_def prop_less_def prop_greater_def pasteLength_or_0_def is_type_def
  is_backspace_def js_div_def reduce_sum_def calculateTextComplexity_def
  calculateWordLengthVariance_def split_words_def js_space_def sentence_end_def
  js_quotient_def

lemmas tamper_defs =
  detectTampering_def tamperWarnings_def reconstructContentFromEvents_def
  checkDuplicateTimestamps_def analyzeTimingPatterns_def is_type_def

lemmas crypto_defs =
  verifyCryptographicIntegrity_def verifySignature_def createSignature_def
  stringify_signatureData_def

subsection \<open>The reader\<close>

lemma as_events_valid: "validateEventStructure js \<Longrightarrow> \<exists>es. as_events js = Some es"
  by (induction js) (auto simp: validate_defs as_event_def split: option.splits)

text \<open>
  C10. An archive that loads and whose metadata holds an event with a falsy \<^verbatim>\<open>id\<close>,
  \<^verbatim>\<open>timestamp\<close>, \<^verbatim>\<open>absoluteTime\<close>, \<^verbatim>\<open>type\<close>, \<^verbatim>\<open>sessionId\<close> or \<^verbatim>\<open>data\<close> (absent,
  \<^verbatim>\<open>null\<close>, the empty string, the number 0) is rejected by \<open>readHumanSignFile\<close>, whatever
  else it holds. The rejection logs \<open>InvalidEventStructure\<close> unless the size check or the
  parse of \<^verbatim>\<open>manifest.json\<close>, which come first, have already rejected the file.
\<close>

theorem readHumanSignFile_rejects_falsy_field:
  assumes "loadAsync file = Some zipContent"
    and "metadata_json zipContent = Doc metadata"
    and "event \<in> set (events metadata)"
    and "\<not> truthy_string (j_id event) \<or> \<not> truthy_number (j_timestamp event) \<or>
         \<not> truthy_number (j_absoluteTime event) \<or> \<not> truthy_string (j_type event) \<or>
         \<not> truthy_string (j_sessionId event) \<or> \<not> truthy_object (j_data event)"
  shows "snd (readHumanSignFile now file) \<in>
           {Inl FileTooLarge, Inl JsonSyntaxError, Inl InvalidEventStructure} \<and>
         (file_size file \<le> 10 * 1024 * 1024 \<and> manifest_json zipContent \<noteq> Malformed \<longrightarrow>
            snd (readHumanSignFile now file) = Inl InvalidEventStructure)"
proof -
  have "\<not> valid_event event"
    using assms(4) by (auto simp: valid_event_def)
  with assms(3) have "\<not> validateEventStructure (events metadata)"
    by (auto simp: validateEventStructure_def list_all_iff)
  with assms(1,2) show ?thesis
    by (auto simp: reader_defs Let_def split: member.splits)
qed

text \<open>
  An archive of two well-formed events, the second with the numeric \<^verbatim>\<open>timestamp\<close> 0, is
  rejected for its event structure.
\<close>

theorem readHumanSignFile_rejects_falsy_field_witness:
  "j_timestamp (sample_json_event 0 950) = Some 0 \<and>
   \<not> truthy_number (j_timestamp (sample_json_event 0 950)) \<and>
   snd (readHumanSignFile 1000
          (sample_file 500 [sample_json_event 5 950, sample_json_event 0 950])) =
     Inl InvalidEventStructure"
  using readHumanSignFile_rejects_falsy_field
    [of "sample_file 500 [sample_json_event 5 950, sample_json_event 0 950]" _
        "sample_json_metadata [sample_json_event 5 950, sample_json_event 0 950]"
        "sample_json_event 0 950" 1000]
  by (simp add: sample_file_defs truthy_number_def)

text \<open>
  C5. A file above 10 MiB is rejected and none of its members is read or parsed; but the
  reader has by then called \<^verbatim>\<open>zip.loadAsync(file)\<close>: the container is loaded before the
  size is looked at, and an oversized file that is no container is rejected by the load,
  not by the size check.
\<close>

theorem readHumanSignFile_oversized:
  assumes "file_size file > 10 * 1024 * 1024"
  shows "readHumanSignFile now file =
           ([LoadContainer],
            Inl (case loadAsync file of None \<Rightarrow> ZipError | Some zipContent \<Rightarrow> FileTooLarge))"
  using assms by (simp add: readHumanSignFile_def split: option.splits)

theorem readHumanSignFile_oversized_witness:
  "file_size (sample_file 10485761 []) > 10 * 1024 * 1024 \<and>
   readHumanSignFile 1000 (sample_file 10485761 []) = ([LoadContainer], Inl FileTooLarge)"
  using readHumanSignFile_oversized [of "sample_file 10485761 []" 1000]
  by (simp add: sample_file_defs)

text \<open>
  C4. An archive whose only event carries an \<^verbatim>\<open>absoluteTime\<close> two minutes ahead of the
  verification clock (121000 against 1000) is accepted: \<open>detectTimestampManipulation\<close>
  returns \<^verbatim>\<open>false\<close> for fewer than two events before it reaches the future-date check.
\<close>

theorem readHumanSignFile_accepts_single_future_event:
  "snd (readHumanSignFile 1000 (sample_file 500 [sample_json_event 5 121000])) =
     Inr \<lparr>p_text = ''a'',
          p_metadata =
            \<lparr>version = ''1.0.0'',
             events = [\<lparr>e_id = ''e1'', e_timestamp = 5, e_absoluteTime = 121000,
                        e_type = ''keydown'', e_sessionId = ''session-900'',
                        e_data = \<lparr>key = Some ''a'', pasteLength = None\<rparr>\<rparr>],
             sessionStart = 900, sessionId = ''session-900'', contentHash = None,
             signature = None, finalText = ''a''\<rparr>,
          p_manifest = empty_manifest\<rparr>"
  by (simp add: reader_defs sample_file_defs validate_defs security_defs Let_def
        split del: if_split)

subsection \<open>No scorer divides by zero\<close>

lemma js_div_Some: "b \<noteq> 0 \<Longrightarrow> js_div a b = Some (a / b)"
  by (simp add: js_div_def)

lemma calculateVariance_total: "calculateVariance xs \<noteq> None"
  by (cases xs) (simp_all add: calculateVariance_def js_div_def)

lemma preProcessEvents_total: "preProcessEvents es \<noteq> None"
proof -
  obtain v where
    v: "calculateVariance (calculateTimings (filter (is_type ''keydown'') es)) = Some v"
    using calculateVariance_total by blast
  show ?thesis
    by (simp add: preProcessEvents_def Let_def v js_div_def)
qed

lemma analyzeBiometrics_total: "analyzeBiometrics md \<noteq> None"
proof -
  obtain m where m: "preProcessEvents (events md) = Some m"
    using preProcessEvents_total by blast
  have d1: "js_div (real (keyEvents m)) (max (sessionDuration m) 1) =
              Some (real (keyEvents m) / max (sessionDuration m) 1)"
    by (rule js_div_Some) linarith
  have d2: "js_div (real (backspaceCount m)) (real (max (keyEvents m) 1)) =
              Some (real (backspaceCount m) / real (max (keyEvents m) 1))"
    by (rule js_div_Some) simp
  show ?thesis
    by (simp only: analyzeBiometrics_def m d1 d2 Let_def Option.bind.simps) simp
qed

lemma calculateTimings_pos: "t \<in> set (calculateTimings es) \<Longrightarrow> 0 < t \<and> t < 5000"
  by (induction es rule: calculateTimings.induct) (auto simp: Let_def split: if_splits)

lemma foldl_add_pos:
  "(\<And>t. t \<in> set ts \<Longrightarrow> 0 < t) \<Longrightarrow> 0 \<le> a \<Longrightarrow> ts \<noteq> [] \<or> 0 < a \<Longrightarrow>
   0 < foldl (\<lambda>a b. a + b) (a::real) ts"
proof (induction ts arbitrary: a)
  case Nil
  then show ?case by simp
next
  case (Cons x xs)
  have "0 < a + x" using Cons.prems by (simp add: add_nonneg_pos)
  then show ?case using Cons.IH[of "a + x"] Cons.prems(1) by simp
qed

lemma reduce_sum_pos: "(\<And>t. t \<in> set ts \<Longrightarrow> 0 < t) \<Longrightarrow> ts \<noteq> [] \<Longrightarrow> 0 < reduce_sum ts"
  unfolding reduce_sum_def by (rule foldl_add_pos) auto

lemma calculateRhythmFeatures_total:
  assumes "\<And>t. t \<in> set ts \<Longrightarrow> 0 < t"
  shows "calculateRhythmFeatures ts \<noteq> None"
proof (cases "ts = []")
  case True
  then show ?thesis by (simp add: calculateRhythmFeatures_def)
next
  case False
  then have "0 < reduce_sum ts" using assms reduce_sum_pos by blast
  moreover have "0 < real (length ts)" using False by simp
  ultimately have "reduce_sum ts / real (length ts) \<noteq> 0" by simp
  then show ?thesis using False
    by (simp add: calculateRhythmFeatures_def js_div_def Let_def)
qed

lemma detectBurstPatterns_total: "detectBurstPatterns ts \<noteq> None"
  by (simp add: detectBurstPatterns_def js_div_def)

lemma calculateWordLengthVariance_total: "calculateWordLengthVariance text \<noteq> None"
  by (simp add: calculateWordLengthVariance_def Let_def js_div_def)

lemma extractFeatures_total: "extractFeatures md \<noteq> None"
proof -
  obtain r where
    r: "calculateRhythmFeatures
          (calculateTimings (filter (is_type ''keydown'') (events md))) = Some r"
    using calculateRhythmFeatures_total calculateTimings_pos by blast
  obtain b where
    b: "detectBurstPatterns
          (calculateTimings (filter (is_type ''keydown'') (events md))) = Some b"
    using detectBurstPatterns_total by blast
  obtain w where w: "calculateWordLengthVariance (finalText md) = Some w"
    using calculateWordLengthVariance_total by blast
  show ?thesis
    by (simp add: extractFeatures_def Let_def r b w js_div_def)
qed

lemma analyzeForAI_total: "analyzeForAI md \<noteq> None"
proof -
  obtain f where "extractFeatures md = Some f" using extractFeatures_total by blast
  then show ?thesis by (simp add: analyzeForAI_def Let_def)
qed

subsection \<open>The example archives, evaluated\<close>

lemma forged_read:
  "snd (readHumanSignFile 1000 forged_file) =
     Inr \<lparr>p_text = ''a'', p_metadata = sample_metadata [sample_event 5 950],
          p_manifest = forged_manifest\<rparr>"
  by (simp add: forged_file_def reader_defs validate_defs sample_file_defs security_defs
        sample_defs Let_def split del: if_split)

lemma sample_biometrics:
  "analyzeBiometrics (sample_metadata [sample_event 5 950]) =
     Some \<lparr>humanScore = 100, b_verdict = ''VERIFIED_HUMAN'', anomalies = [],
            metrics = \<lparr>totalEvents = 1, keyEvents = 1, pasteEvents = 0, backspaceCount = 0,
                        averageTiming = 0, timingVariance = 0, sessionDuration = 0\<rparr>\<rparr>"
  by (simp add: sample_defs biometric_defs Let_def split del: if_split)

lemma sample_ai:
  "analyzeForAI (sample_metadata [sample_event 5 950]) =
     Some \<lparr>aiProbability = 25, humanProbability = 75, redFlags = [],
            features = [(''avgKeyInterval'', Num 0), (''timingVariance'', Num 0), (''maxPause'', Num 0),
                        (''minPause'', Num 0), (''backspaceRatio'', Num 0), (''pasteRatio'', Num 0),
                        (''eventDensity'', Num 1), (''rhythmConsistency'', Num 0),
                        (''burstPattern'', Num 0), (''thinkingPauses'', Num 0),
                        (''textComplexity'', Num 1), (''wordLengthVariance'', Num 0)],
            confidence = 50\<rparr>"
  by (simp add: sample_defs ai_defs Let_def split del: if_split)

lemma sample_untampered:
  "detectTampering (sample_metadata [sample_event 5 950]) forged_manifest ''a'' = False"
  by (simp add: sample_defs tamper_defs Let_def split del: if_split)

lemma sample_crypto:
  "verifyCryptographicIntegrity id 1000 (sample_metadata [sample_event 5 950]) forged_manifest =
     True"
  by (simp add: sample_defs crypto_defs forged_manifest_def Let_def split del: if_split)

lemma forged_analysis:
  "analyzeHumanSignFile id 1000 forged_file =
     Some (Inr \<lparr>isValid = True, isTampered = False, r_humanScore = 75,
                 verdict = VERIFIED_HUMAN, r_anomalies = [],
                 r_manifest = forged_manifest,
                 r_metadata = sample_metadata [sample_event 5 950],
                 content = ''a'',
                 biometricAnalysis =
                   \<lparr>humanScore = 100, b_verdict = ''VERIFIED_HUMAN'', anomalies = [],
                    metrics = \<lparr>totalEvents = 1, keyEvents = 1, pasteEvents = 0,
                               backspaceCount = 0, averageTiming = 0, timingVariance = 0,
                               sessionDuration = 0\<rparr>\<rparr>,
                 aiAnalysis =
                   \<lparr>aiProbability = 25, humanProbability = 75, redFlags = [],
                    features = [(''avgKeyInterval'', Num 0), (''timingVariance'', Num 0),
                                (''maxPause'', Num 0), (''minPause'', Num 0), (''backspaceRatio'', Num 0),
                                (''pasteRatio'', Num 0), (''eventDensity'', Num 1),
                                (''rhythmConsistency'', Num 0), (''burstPattern'', Num 0),
                                (''thinkingPauses'', Num 0),
                        (''textComplexity'', Num 1), (''wordLengthVariance'', Num 0)],
                    confidence = 50\<rparr>\<rparr>)"
  by (simp only: analyzeHumanSignFile_def forged_read sum.case Let_def parsed_file.simps
        sample_biometrics sample_ai sample_untampered sample_crypto Option.bind.simps)
     (simp add: determineEnhancedVerdict_def split del: if_split)

subsection \<open>The verdict\<close>

lemma determineEnhancedVerdict_spec:
  "determineEnhancedVerdict (max 0 (b - aiProbability a)) c t a =
     spec_verdict b (aiProbability a) c t"
  by (auto simp: determineEnhancedVerdict_def spec_verdict_def Let_def)

text \<open>
  C3. For every archive the reader accepts, \<open>analyzeHumanSignFile\<close> returns a result; its
  score is \<open>max 0 (behavioural score - AI probability)\<close> of the two scorers run on the
  recovered metadata, and its verdict is the one the specification's rule gives for those
  two scores, the outcome of the crypto check and the tamper flag.
\<close>

theorem verdict_combination:
  assumes "snd (readHumanSignFile now file) = Inr parsed"
  shows "\<exists>r. analyzeHumanSignFile createHash now file = Some (Inr r) \<and>
           analyzeBiometrics (p_metadata parsed) = Some (biometricAnalysis r) \<and>
           analyzeForAI (p_metadata parsed) = Some (aiAnalysis r) \<and>
           isTampered r =
             detectTampering (p_metadata parsed) (p_manifest parsed) (p_text parsed) \<and>
           r_humanScore r =
             max 0 (humanScore (biometricAnalysis r) - aiProbability (aiAnalysis r)) \<and>
           verdict r =
             spec_verdict (humanScore (biometricAnalysis r)) (aiProbability (aiAnalysis r))
               (verifyCryptographicIntegrity createHash now (p_metadata parsed)
                  (p_manifest parsed))
               (isTampered r)"
proof -
  obtain b where b: "analyzeBiometrics (p_metadata parsed) = Some b"
    using analyzeBiometrics_total by blast
  obtain a where a: "analyzeForAI (p_metadata parsed) = Some a"
    using analyzeForAI_total by blast
  show ?thesis
    by (simp add: analyzeHumanSignFile_def assms Let_def a b determineEnhancedVerdict_spec)
qed

text \<open>
  On the example archive the scorers give 100 and 25, the checks pass, and the verdict is
  \<open>VERIFIED_HUMAN\<close> at the combined score 75.
\<close>

theorem verdict_combination_witness:
  "map_option (map_sum id isTampered) (analyzeHumanSignFile id 1000 forged_file) =
     Some (Inr False) \<and>
   map_option (map_sum id r_humanScore) (analyzeHumanSignFile id 1000 forged_file) =
     Some (Inr (max 0 (100 - 25))) \<and>
   map_option (map_sum id verdict) (analyzeHumanSignFile id 1000 forged_file) =
     Some (Inr (spec_verdict 100 25 True False)) \<and>
   spec_verdict 100 25 True False = VERIFIED_HUMAN"
  using verdict_combination [OF forged_read, of id]
  by (simp add: forged_analysis spec_verdict_def)

subsection \<open>The signature\<close>

lemma of_char_digit_char: "d < 10 \<Longrightarrow> of_char (digit_char d) = 48 + d"
proof -
  assume d: "d < 10"
  have "of_char (digit_char d) = (48 + d) mod 256"
    unfolding digit_char_def by (rule of_char_of)
  also have "\<dots> = 48 + d" using d by (intro mod_less) linarith
  finally show ?thesis .
qed

lemma digit_char_inj: "a < 10 \<Longrightarrow> b < 10 \<Longrightarrow> digit_char a = digit_char b \<Longrightarrow> a = b"
proof -
  assume a: "a < 10" and b: "b < 10" and e: "digit_char a = digit_char b"
  have "(of_char (digit_char a) :: nat) = of_char (digit_char b)" using e by (rule arg_cong)
  then have "48 + a = 48 + b"
    by (simp only: of_char_digit_char[OF a] of_char_digit_char[OF b])
  then show "a = b" by linarith
qed

lemma show_nat_length: "10 \<le> n \<Longrightarrow> 2 \<le> length (show_nat n)"
  by (subst show_nat.simps) (simp, subst show_nat.simps, simp)

lemma show_nat_inj: "show_nat a = show_nat b \<Longrightarrow> a = b"
proof (induction a arbitrary: b rule: show_nat.induct)
  case (1 n)
  show ?case
  proof (cases "n < 10")
    case True
    show ?thesis
    proof (cases "b < 10")
      case b: True
      from "1.prems" True b have "digit_char n = digit_char b"
        by (simp add: show_nat.simps)
      then show ?thesis using True b digit_char_inj by blast
    next
      case False
      then have "2 \<le> length (show_nat b)" by (simp add: show_nat_length)
      moreover have "length (show_nat n) = 1" using True by (simp add: show_nat.simps)
      ultimately show ?thesis using "1.prems" by simp
    qed
  next
    case False
    show ?thesis
    proof (cases "b < 10")
      case True
      from False have "2 \<le> length (show_nat n)" by (simp add: show_nat_length)
      moreover have "length (show_nat b) = 1" using True by (simp add: show_nat.simps)
      ultimately show ?thesis using "1.prems" by simp
    next
      case b: False
      have n: "show_nat n = show_nat (n div 10) @ [digit_char (n mod 10)]"
        using False by (subst show_nat.simps) simp
      have bb: "show_nat b = show_nat (b div 10) @ [digit_char (b mod 10)]"
        using b by (subst show_nat.simps) simp
      from "1.prems" n bb have
        e1: "show_nat (n div 10) = show_nat (b div 10)" and
        e2: "digit_char (n mod 10) = digit_char (b mod 10)" by simp_all
      from "1.IH"[OF False e1] have "n div 10 = b div 10" .
      moreover from e2 have "n mod 10 = b mod 10" by (rule digit_char_inj[rotated 2]) simp_all
      ultimately show ?thesis by (metis div_mult_mod_eq)
    qed
  qed
qed

lemma stringify_signatureData_inj:
  "stringify_signatureData a metadata @ k = stringify_signatureData b metadata @ k \<Longrightarrow> a = b"
  by (rule show_nat_inj) (simp add: stringify_signatureData_def)

text \<open>
  C2. \<open>verifySignature\<close> calls \<open>createSignature\<close>, which reads the clock again: the
  signing-time value is not persisted anywhere and is not replayed. Under a digest without
  collisions, a signature made by \<open>createSignature\<close> at one clock reading is refused by
  \<open>verifySignature\<close> at any other reading, with the same metadata and the same key.
\<close>

theorem verifySignature_fails_when_clock_moved:
  assumes "inj createHash" and "signedAt \<noteq> verifiedAt"
  shows "\<not> verifySignature createHash verifiedAt metadata
             (createSignature createHash signedAt metadata secretKey) secretKey"
proof
  assume "verifySignature createHash verifiedAt metadata
            (createSignature createHash signedAt metadata secretKey) secretKey"
  then have "createHash (stringify_signatureData signedAt metadata @ secretKey) =
             createHash (stringify_signatureData verifiedAt metadata @ secretKey)"
    by (simp add: verifySignature_def createSignature_def)
  then have "stringify_signatureData signedAt metadata @ secretKey =
             stringify_signatureData verifiedAt metadata @ secretKey"
    using assms(1) by (simp add: inj_eq)
  then show False using assms(2) stringify_signatureData_inj by blast
qed

text \<open>One millisecond later, with the identity in the place of the digest.\<close>

theorem verifySignature_fails_when_clock_moved_witness:
  "inj (id :: string \<Rightarrow> string) \<and> (1000 :: nat) \<noteq> 1001 \<and>
   verifySignature id 1001 (sample_metadata [sample_event 5 950])
     (createSignature id 1000 (sample_metadata [sample_event 5 950]) ''hs_k3y'') ''hs_k3y'' = False"
  using verifySignature_fails_when_clock_moved [of id 1000 1001 "sample_metadata [sample_event 5 950]" "''hs_k3y''"]
  by simp


subsection \<open>The live statistics\<close>

lemmas capture_defs = calculateStats_def calculateHumanConfidence_def Math_std_def Math_mean_def
  js_div_def reduce_sum_def Math_round_def count_words_def split_words_def js_space_def
  handleKeyDown_def
  startCapture_def setText_def createEvent_def is_type_def

text \<open>
  C6. After \<open>startCapture\<close> and one Backspace key-down the session has one key-down event
  and one backspace: the heuristic of the specification takes the ratio 1 / 1 and gives 75.
  \<open>calculateStats\<close> passes \<^verbatim>\<open>timings.length\<close>, the number of ring intervals in
  \<open>(0, 5000)\<close>, as \<^verbatim>\<open>totalKeys\<close>; the first key has the interval 0, so the denominator is 0,
  the ratio defaults to 0, the penalty for no corrections applies, and the score is 55.
\<close>

theorem humanConfidence_uses_ring_length:
  "calculateStats 2000 backspace_session =
     Some \<lparr>ls_totalKeys = 1, ls_backspaceCount = 1, ls_pasteCount = 0, ls_avgSpeed = 0,
            ls_currentSpeed = 0, ls_variance = 0, ls_thinkingPauses = 0,
            ls_sessionDuration = 1, ls_lastKeyTiming = 0, ls_typingRhythm = [],
            ls_humanConfidence = 55\<rparr> \<and>
   spec_humanConfidence 0 1 1 0 0 = 75"
  by (simp add: backspace_session_def mounted_def capture_defs spec_humanConfidence_def Let_def
        split del: if_split)


subsection \<open>Sessions and metadata without events\<close>

lemma step_fresh: "fresh c \<Longrightarrow> fresh (step c a)"
  by (cases a)
     (auto simp: fresh_def startCapture_def stopCapture_def setText_def handleKeyDown_def
        handleKeyUp_def handlePaste_def handleCopy_def handleCut_def Let_def)

lemma foldl_step_fresh: "fresh c \<Longrightarrow> fresh (foldl step c actions)"
  by (induction actions arbitrary: c) (simp_all add: step_fresh)

lemma run_fresh: "fresh (run t0 actions)"
  unfolding run_def by (rule foldl_step_fresh) (simp add: fresh_def mounted_def)

lemma zero_stats:
  assumes "c_events c = []" and "fresh c"
  shows "calculateStats now c =
     Some \<lparr>ls_totalKeys = 0, ls_backspaceCount = 0, ls_pasteCount = 0,
            ls_avgSpeed =
              (if real now - real (sessionStartRef c) > 0
               then Math_round (real (count_words (c_text c)) /
                                ((real now - real (sessionStartRef c)) / 1000 / 60))
               else 0),
            ls_currentSpeed =
              (if real now - real (sessionStartRef c) > 0
               then Math_round (real (count_words (c_text c)) /
                                ((real now - real (sessionStartRef c)) / 1000 / 60))
               else 0),
            ls_variance = 0, ls_thinkingPauses = 0,
            ls_sessionDuration = Math_round ((real now - real (sessionStartRef c)) / 1000),
            ls_lastKeyTiming = 0, ls_typingRhythm = [],
            ls_humanConfidence = 55\<rparr>"
proof -
  from assms have r: "keyTimingsRef c = []" "backspaceCountRef c = 0" "pasteCountRef c = 0"
    by (simp_all add: fresh_def)
  show ?thesis
    by (simp add: calculateStats_def calculateHumanConfidence_def js_div_def r assms(1) Let_def)
qed

lemma zero_pre: "preProcessEvents [] =
     Some \<lparr>totalEvents = 0, keyEvents = 0, pasteEvents = 0, backspaceCount = 0,
            averageTiming = 0, timingVariance = 0, sessionDuration = 0\<rparr>"
  by (simp add: preProcessEvents_def calculateVariance_def Let_def)

lemma zero_bio: "events metadata = [] \<Longrightarrow> analyzeBiometrics metadata =
     Some \<lparr>humanScore = 100, b_verdict = ''VERIFIED_HUMAN'', anomalies = [],
            metrics = \<lparr>totalEvents = 0, keyEvents = 0, pasteEvents = 0, backspaceCount = 0,
            averageTiming = 0, timingVariance = 0, sessionDuration = 0\<rparr>\<rparr>"
  by (simp add: analyzeBiometrics_def zero_pre js_div_def behavioural_verdict_def Let_def)

lemma zero_rhythm: "calculateRhythmFeatures [] =
     Some \<lparr>avgInterval = 0, variance = 0, maxPause = 0, minPause = 0, consistency = 0,
            thinkingPauses = 0\<rparr>"
  by (simp add: calculateRhythmFeatures_def)

lemma zero_features:
  assumes "events metadata = []"
  shows "\<exists>w. extractFeatures metadata =
     Some [(''avgKeyInterval'', Num 0), (''timingVariance'', Num 0), (''maxPause'', Num 0),
           (''minPause'', Num 0), (''backspaceRatio'', Num 0), (''pasteRatio'', Num 0),
           (''eventDensity'', Num 0), (''rhythmConsistency'', Num 0), (''burstPattern'', Num 0),
           (''thinkingPauses'', Num 0),
           (''textComplexity'', calculateTextComplexity (finalText metadata)),
           (''wordLengthVariance'', Num w)]"
proof -
  obtain w where w: "calculateWordLengthVariance (finalText metadata) = Some w"
    using calculateWordLengthVariance_total by blast
  show ?thesis
    by (simp add: extractFeatures_def zero_rhythm detectBurstPatterns_def js_div_def Let_def
          assms w)
qed

lemma zero_hc: "calculateHumanConfidence 0 0 0 0 0 = Some 55"
  by (simp add: calculateHumanConfidence_def)

text \<open>
  The statistics over the events. In a capture session that has recorded no event, and on
  metadata with no event, each of them is computed without a division by zero and every
  ratio over the events is 0: variance, thinking pauses and last interval of the live
  statistics (the words per minute divide by the elapsed minutes only when these are
  positive), the backspace ratio inside \<open>calculateHumanConfidence\<close> (hence the score
  100 - 20 - 25), average timing, variance and duration of \<open>preProcessEvents\<close>, the two
  ratios of \<open>analyzeBiometrics\<close> (hence no anomaly), the rhythm features, and backspace
  ratio, paste ratio, event density and burst ratio of \<open>extractFeatures\<close>. The text
  complexity, which \<open>extractFeatures\<close> computes from the final text, is left as it is.
\<close>

lemma zero_events_event_statistics:
  assumes "c_events (run t0 actions) = []" and "events metadata = []"
  shows "calculateStats now (run t0 actions) =
     Some \<lparr>ls_totalKeys = 0, ls_backspaceCount = 0, ls_pasteCount = 0,
            ls_avgSpeed =
              (if real now - real (sessionStartRef (run t0 actions)) > 0
               then Math_round (real (count_words (c_text (run t0 actions))) /
                                ((real now - real (sessionStartRef (run t0 actions))) / 1000 / 60))
               else 0),
            ls_currentSpeed =
              (if real now - real (sessionStartRef (run t0 actions)) > 0
               then Math_round (real (count_words (c_text (run t0 actions))) /
                                ((real now - real (sessionStartRef (run t0 actions))) / 1000 / 60))
               else 0),
            ls_variance = 0, ls_thinkingPauses = 0,
            ls_sessionDuration =
              Math_round ((real now - real (sessionStartRef (run t0 actions))) / 1000),
            ls_lastKeyTiming = 0, ls_typingRhythm = [],
            ls_humanConfidence = 55\<rparr> \<and>
   calculateHumanConfidence 0 0 0 0 0 = Some 55 \<and>
   preProcessEvents (events metadata) =
     Some \<lparr>totalEvents = 0, keyEvents = 0, pasteEvents = 0, backspaceCount = 0,
            averageTiming = 0, timingVariance = 0, sessionDuration = 0\<rparr> \<and>
   analyzeBiometrics metadata =
     Some \<lparr>humanScore = 100, b_verdict = ''VERIFIED_HUMAN'', anomalies = [],
            metrics = \<lparr>totalEvents = 0, keyEvents = 0, pasteEvents = 0, backspaceCount = 0,
                        averageTiming = 0, timingVariance = 0, sessionDuration = 0\<rparr>\<rparr> \<and>
   calculateRhythmFeatures (calculateTimings (filter (is_type ''keydown'') (events metadata))) =
     Some \<lparr>avgInterval = 0, variance = 0, maxPause = 0, minPause = 0, consistency = 0,
            thinkingPauses = 0\<rparr> \<and>
   (\<exists>w. extractFeatures metadata =
     Some [(''avgKeyInterval'', Num 0), (''timingVariance'', Num 0), (''maxPause'', Num 0),
           (''minPause'', Num 0), (''backspaceRatio'', Num 0), (''pasteRatio'', Num 0),
           (''eventDensity'', Num 0), (''rhythmConsistency'', Num 0), (''burstPattern'', Num 0),
           (''thinkingPauses'', Num 0),
           (''textComplexity'', calculateTextComplexity (finalText metadata)),
           (''wordLengthVariance'', Num w)])"
  using zero_stats[OF assms(1) run_fresh] zero_hc zero_pre zero_bio[OF assms(2)]
    zero_rhythm zero_features[OF assms(2)] assms(2)
  by simp

text \<open>
  C9. The claim fails in the code. \<open>extractFeatures\<close> also computes the text complexity
  of the final text, and \<open>calculateTextComplexity\<close> guards the empty text only: it divides
  the summed word lengths by the number of words and the number of words by the number of
  sentences. On metadata with no event whose final text is one space there is no word, the
  first quotient is 0 / 0 and the feature is \<open>NaN\<close>, beside the ratios over the events,
  which are 0; on the final text \<^verbatim>\<open>...\<close> there is one word and no sentence, the second
  quotient is 1 / 0 and the feature is \<open>Infinity\<close>. The next feature,
  \<open>calculateWordLengthVariance\<close>, splits the words in the same way and returns 0 when
  there are none.
\<close>

theorem textComplexity_divides_by_zero:
  "events blank_metadata = [] \<and>
   split_words (finalText blank_metadata) = [] \<and>
   calculateTextComplexity (finalText blank_metadata) = NaN \<and>
   calculateTextComplexity ''...'' = PosInfinity \<and>
   calculateWordLengthVariance (finalText blank_metadata) = Some 0 \<and>
   extractFeatures blank_metadata =
     Some [(''avgKeyInterval'', Num 0), (''timingVariance'', Num 0), (''maxPause'', Num 0),
           (''minPause'', Num 0), (''backspaceRatio'', Num 0), (''pasteRatio'', Num 0),
           (''eventDensity'', Num 0), (''rhythmConsistency'', Num 0), (''burstPattern'', Num 0),
           (''thinkingPauses'', Num 0), (''textComplexity'', NaN),
           (''wordLengthVariance'', Num 0)]"
proof -
  have e: "events blank_metadata = []" and t: "finalText blank_metadata = '' ''"
    by (simp_all add: blank_metadata_def)
  have w: "split_words '' '' = []"
    by (simp add: split_words_def js_space_def)
  have c: "calculateTextComplexity '' '' = NaN"
    by (simp add: calculateTextComplexity_def split_words_def js_space_def sentence_end_def
          js_quotient_def Let_def)
  have d: "calculateTextComplexity ''...'' = PosInfinity"
    by (simp add: calculateTextComplexity_def split_words_def js_space_def sentence_end_def
          js_quotient_def Let_def)
  have v: "calculateWordLengthVariance '' '' = Some 0"
    by (simp add: calculateWordLengthVariance_def w Let_def)
  have f: "extractFeatures blank_metadata =
     Some [(''avgKeyInterval'', Num 0), (''timingVariance'', Num 0), (''maxPause'', Num 0),
           (''minPause'', Num 0), (''backspaceRatio'', Num 0), (''pasteRatio'', Num 0),
           (''eventDensity'', Num 0), (''rhythmConsistency'', Num 0), (''burstPattern'', Num 0),
           (''thinkingPauses'', Num 0), (''textComplexity'', NaN),
           (''wordLengthVariance'', Num 0)]"
    by (simp add: extractFeatures_def zero_rhythm detectBurstPatterns_def js_div_def Let_def
          e t c v)
  from e t w c d v f show ?thesis
    by simp
qed


subsection \<open>Red flags\<close>

lemmas points_defs = points_consistency_def points_burst_def points_corrections_def
  points_paste_def points_density_def points_pauses_def

lemma predictAIProbability_points:
  "predictAIProbability f =
     min 100 (points_consistency f + points_burst f + points_corrections f + points_paste f +
              points_density f + points_pauses f)"
  by (simp add: predictAIProbability_def points_defs Let_def)

text \<open>
  C7, as amended. The probability is the capped sum of the points of the six rules. The
  burst flag and the paste flag are emitted exactly when their rules add points. The flag
  for few corrections is emitted exactly when its rule adds points and the log has more
  than 50 events; the flag for missing thinking pauses exactly when there are fewer than
  two pauses and the log has more than 100 events, whatever the average interval that the
  rule also tests. The event-density rule has no flag. No string other than the five
  flags is emitted, and none twice.
\<close>

theorem redFlags_per_rule:
  assumes "analyzeForAI metadata = Some a"
  shows "aiProbability a =
           min 100 (points_consistency (features a) + points_burst (features a) +
                    points_corrections (features a) + points_paste (features a) +
                    points_density (features a) + points_pauses (features a)) \<and>
         (''Burst typing pattern suggests automated input'' \<in> set (redFlags a) \<longleftrightarrow>
            points_burst (features a) > 0) \<and>
         (''Significant paste operations detected'' \<in> set (redFlags a) \<longleftrightarrow>
            points_paste (features a) > 0) \<and>
         (''Very few corrections made, unusual for human typing'' \<in> set (redFlags a) \<longleftrightarrow>
            points_corrections (features a) > 0 \<and> length (events metadata) > 50) \<and>
         (''Lack of natural thinking pauses'' \<in> set (redFlags a) \<longleftrightarrow>
            prop_less (features a) ''thinkingPauses'' 2 \<and> length (events metadata) > 100) \<and>
         set (redFlags a) \<subseteq>
           {''Extremely consistent typing rhythm detected'',
            ''Burst typing pattern suggests automated input'',
            ''Very few corrections made, unusual for human typing'',
            ''Significant paste operations detected'',
            ''Lack of natural thinking pauses''} \<and>
         distinct (redFlags a)"
proof -
  obtain f where f: "extractFeatures metadata = Some f"
    using extractFeatures_total by blast
  from assms have a: "a = \<lparr>aiProbability = predictAIProbability f,
       humanProbability = 100 - predictAIProbability f,
       redFlags =
         (if prop_less f ''consistency'' 0.3
          then [''Extremely consistent typing rhythm detected''] else []) @
         (if prop_greater f ''burstPattern'' 0.1
          then [''Burst typing pattern suggests automated input''] else []) @
         (if prop_less f ''backspaceRatio'' 0.02 \<and> length (events metadata) > 50
          then [''Very few corrections made, unusual for human typing''] else []) @
         (if prop_greater f ''pasteRatio'' 0.1
          then [''Significant paste operations detected''] else []) @
         (if prop_less f ''thinkingPauses'' 2 \<and> length (events metadata) > 100
          then [''Lack of natural thinking pauses''] else []),
       features = f, confidence = \<bar>predictAIProbability f - 50\<bar> * 2\<rparr>"
    by (simp add: analyzeForAI_def f Let_def)
  have 1: "aiProbability a = predictAIProbability f" "features a = f"
    by (simp_all add: a)
  show ?thesis
    unfolding 1 predictAIProbability_points[symmetric]
    apply (intro conjI)
          apply simp
         apply (simp add: a points_defs)
        apply (simp add: a points_defs)
       apply (simp add: a points_defs)
      apply (simp add: a points_defs)
     apply (auto simp: a)[1]
    apply (auto simp: a)[1]
    done
qed


lemma pasted_ai:
  "analyzeForAI (sample_metadata [paste_event 5 950 5]) =
     Some \<lparr>aiProbability = 45, humanProbability = 55,
            redFlags = [''Significant paste operations detected''],
            features = [(''avgKeyInterval'', Num 0), (''timingVariance'', Num 0), (''maxPause'', Num 0),
                        (''minPause'', Num 0), (''backspaceRatio'', Num 0), (''pasteRatio'', Num 5),
                        (''eventDensity'', Num 0), (''rhythmConsistency'', Num 0),
                        (''burstPattern'', Num 0), (''thinkingPauses'', Num 0),
                        (''textComplexity'', Num 1), (''wordLengthVariance'', Num 0)],
            confidence = 10\<rparr>"
  by (simp add: sample_defs paste_event_def ai_defs Let_def split del: if_split)

text \<open>A five-character paste into a one-character text: the paste rule and its flag.\<close>

theorem redFlags_per_rule_witness:
  "map_option aiProbability (analyzeForAI (sample_metadata [paste_event 5 950 5])) = Some 45 \<and>
   map_option redFlags (analyzeForAI (sample_metadata [paste_event 5 950 5])) =
     Some [''Significant paste operations detected''] \<and>
   map_option points_paste (map_option features
     (analyzeForAI (sample_metadata [paste_event 5 950 5]))) = Some 20"
  using redFlags_per_rule [OF pasted_ai]
  by (simp add: pasted_ai points_paste_def prop_greater_def)

text \<open>
  C7 as stated fails on a log of one key-down event: the rules for few corrections and for
  missing pauses add 15 and 10 points, and no red flag is emitted.
\<close>

theorem rules_without_red_flags:
  "map_option aiProbability (analyzeForAI (sample_metadata [sample_event 5 950])) = Some 25 \<and>
   map_option redFlags (analyzeForAI (sample_metadata [sample_event 5 950])) = Some [] \<and>
   map_option points_corrections (map_option features
     (analyzeForAI (sample_metadata [sample_event 5 950]))) = Some 15 \<and>
   map_option points_pauses (map_option features
     (analyzeForAI (sample_metadata [sample_event 5 950]))) = Some 10"
  by (simp add: sample_ai points_corrections_def points_pauses_def prop_less_def)


subsection \<open>Appending paste events\<close>

lemma analyzeBiometrics_closed:
  assumes "preProcessEvents (events md) = Some m"
  shows "\<exists>b. analyzeBiometrics md = Some b \<and> metrics b = m \<and>
     humanScore b =
       max 0 (min 100 (100 - real (pasteEvents m) * 10
         - (if timingVariance m < 10 \<and> keyEvents m > 20 then 30 else 0)
         - (if real (keyEvents m) / max (sessionDuration m) 1 > 15 then 20 else 0)
         - (if real (backspaceCount m) / real (max (keyEvents m) 1) < 0.02 \<and> keyEvents m > 50
            then 15 else 0))) \<and>
     (''Unusually high typing speed detected'' \<in> set (anomalies b) \<longleftrightarrow>
        real (keyEvents m) / max (sessionDuration m) 1 > 15)"
proof -
  have d1: "js_div (real (keyEvents m)) (max (sessionDuration m) 1) =
              Some (real (keyEvents m) / max (sessionDuration m) 1)"
    by (rule js_div_Some) linarith
  have d2: "js_div (real (backspaceCount m)) (real (max (keyEvents m) 1)) =
              Some (real (backspaceCount m) / real (max (keyEvents m) 1))"
    by (rule js_div_Some) simp
  show ?thesis
    by (simp only: analyzeBiometrics_def assms d1 d2 Let_def Option.bind.simps) auto
qed

lemma pastes_filter:
  assumes "list_all (\<lambda>e. e_type e = ''paste'' \<and> 0 \<le> pasteLength_or_0 e) ps"
  shows "filter (is_type ''keydown'') (es @ ps) = filter (is_type ''keydown'') es"
    and "filter (\<lambda>e. e_type e = ''keydown'' \<or> e_type e = ''keyup'') (es @ ps) =
         filter (\<lambda>e. e_type e = ''keydown'' \<or> e_type e = ''keyup'') es"
    and "filter is_backspace (es @ ps) = filter is_backspace es"
    and "filter (is_type ''paste'') (es @ ps) = filter (is_type ''paste'') es @ ps"
  using assms by (auto simp: list_all_iff is_type_def is_backspace_def filter_empty_conv filter_id_conv)

lemma pastes_filter_nil:
  assumes "list_all (\<lambda>e. e_type e = ''paste'' \<and> 0 \<le> pasteLength_or_0 e) ps"
  shows "filter (is_type ''keydown'') ps = []"
    and "filter is_backspace ps = []"
    and "filter (is_type ''paste'') ps = ps"
  using assms by (auto simp: list_all_iff is_type_def is_backspace_def filter_empty_conv filter_id_conv)

lemma preProcessEvents_pastes:
  assumes "list_all (\<lambda>e. e_type e = ''paste'' \<and> 0 \<le> pasteLength_or_0 e) ps"
    and "preProcessEvents es = Some m" and "preProcessEvents (es @ ps) = Some m'"
  shows "keyEvents m' = keyEvents m \<and> timingVariance m' = timingVariance m \<and>
         backspaceCount m' = backspaceCount m \<and>
         pasteEvents m' = pasteEvents m + length ps"
  using assms(2,3) unfolding preProcessEvents_def Let_def pastes_filter[OF assms(1)]
  by (auto simp: bind_eq_Some_conv)


lemma humanScore_pastes:
  assumes ps: "list_all (\<lambda>e. e_type e = ''paste'' \<and> 0 \<le> pasteLength_or_0 e) ps"
    and b: "analyzeBiometrics md = Some b"
    and b': "analyzeBiometrics (md\<lparr>events := events md @ ps\<rparr>) = Some b'"
    and speed: "''Unusually high typing speed detected'' \<in> set (anomalies b) \<Longrightarrow>
                ''Unusually high typing speed detected'' \<in> set (anomalies b')"
  shows "humanScore b' \<le> humanScore b"
proof -
  obtain m where m: "preProcessEvents (events md) = Some m"
    using preProcessEvents_total by blast
  obtain m' where m': "preProcessEvents (events (md\<lparr>events := events md @ ps\<rparr>)) = Some m'"
    using preProcessEvents_total by blast
  from m' have m'': "preProcessEvents (events md @ ps) = Some m'" by simp
  note rel = preProcessEvents_pastes[OF ps m m'']
  from analyzeBiometrics_closed[OF m] b have
    hb: "humanScore b =
       max 0 (min 100 (100 - real (pasteEvents m) * 10
         - (if timingVariance m < 10 \<and> keyEvents m > 20 then 30 else 0)
         - (if real (keyEvents m) / max (sessionDuration m) 1 > 15 then 20 else 0)
         - (if real (backspaceCount m) / real (max (keyEvents m) 1) < 0.02 \<and> keyEvents m > 50
            then 15 else 0)))"
    and sb: "''Unusually high typing speed detected'' \<in> set (anomalies b) \<longleftrightarrow>
        real (keyEvents m) / max (sessionDuration m) 1 > 15"
    by auto
  from analyzeBiometrics_closed[OF m'] b' have
    hb': "humanScore b' =
       max 0 (min 100 (100 - real (pasteEvents m') * 10
         - (if timingVariance m' < 10 \<and> keyEvents m' > 20 then 30 else 0)
         - (if real (keyEvents m') / max (sessionDuration m') 1 > 15 then 20 else 0)
         - (if real (backspaceCount m') / real (max (keyEvents m') 1) < 0.02 \<and> keyEvents m' > 50
            then 15 else 0)))"
    and sb': "''Unusually high typing speed detected'' \<in> set (anomalies b') \<longleftrightarrow>
        real (keyEvents m') / max (sessionDuration m') 1 > 15"
    by auto
  have sp: "real (keyEvents m) / max (sessionDuration m) 1 > 15 \<Longrightarrow>
            real (keyEvents m') / max (sessionDuration m') 1 > 15"
    using speed sb sb' by blast
  define v where "v = (if timingVariance m < 10 \<and> keyEvents m > 20 then 30 else (0::real))"
  define k where "k = (if real (backspaceCount m) / real (max (keyEvents m) 1) < 0.02 \<and> keyEvents m > 50
            then 15 else (0::real))"
  define s where "s = (if real (keyEvents m) / max (sessionDuration m) 1 > 15 then 20 else (0::real))"
  define s' where "s' = (if real (keyEvents m') / max (sessionDuration m') 1 > 15 then 20 else (0::real))"
  have ss: "s \<le> s'" using sp by (simp add: s_def s'_def)
  have 1: "humanScore b = max 0 (min 100 (100 - real (pasteEvents m) * 10 - v - s - k))"
    unfolding hb v_def k_def s_def by simp
  have 2: "humanScore b' = max 0 (min 100 (100 - real (pasteEvents m + length ps) * 10 - v - s' - k))"
    unfolding hb' v_def k_def s'_def using rel by simp
  have "100 - real (pasteEvents m + length ps) * 10 - v - s' - k \<le>
        100 - real (pasteEvents m) * 10 - v - s - k"
    using ss by simp
  then show ?thesis unfolding 1 2 by linarith
qed

lemma foldl_pasteLength_mono:
  "list_all (\<lambda>e. e_type e = ''paste'' \<and> 0 \<le> pasteLength_or_0 e) ps \<Longrightarrow>
   a \<le> foldl (\<lambda>sum e. sum + pasteLength_or_0 e) a ps"
proof (induction ps arbitrary: a)
  case Nil
  then show ?case by simp
next
  case (Cons p ps)
  then have "a \<le> a + pasteLength_or_0 p" by simp
  also have "\<dots> \<le> foldl (\<lambda>sum e. sum + pasteLength_or_0 e) (a + pasteLength_or_0 p) ps"
    using Cons by simp
  finally show ?case by simp
qed

lemma aiProbability_pastes:
  assumes ps: "list_all (\<lambda>e. e_type e = ''paste'' \<and> 0 \<le> pasteLength_or_0 e) ps"
    and a: "analyzeForAI md = Some a"
    and a': "analyzeForAI (md\<lparr>events := events md @ ps\<rparr>) = Some a'"
  shows "aiProbability a \<le> aiProbability a'"
proof -
  let ?T = "calculateTimings (filter (is_type ''keydown'') (events md))"
  obtain r where r: "calculateRhythmFeatures ?T = Some r"
    using calculateRhythmFeatures_total calculateTimings_pos by blast
  obtain bp where bp: "detectBurstPatterns ?T = Some bp"
    using detectBurstPatterns_total by blast
  define P where "P = foldl (\<lambda>sum e. sum + pasteLength_or_0 e) 0 (filter (is_type ''paste'') (events md))"
  define P' where "P' = foldl (\<lambda>sum e. sum + pasteLength_or_0 e) P ps"
  define L where "L = real (max (length (finalText md)) 1)"
  obtain w where w: "calculateWordLengthVariance (finalText md) = Some w"
    using calculateWordLengthVariance_total by blast
  define F where "F = (\<lambda>p. [(''avgKeyInterval'', Num (avgInterval r)),
              (''timingVariance'', Num (variance r)),
              (''maxPause'', Num (maxPause r)),
              (''minPause'', Num (minPause r)),
              (''backspaceRatio'', Num (real (length (filter is_backspace (events md))) /
                   real (max (length (filter (is_type ''keydown'') (events md))) 1))),
              (''pasteRatio'', Num p),
              (''eventDensity'',
                 Num (real (length (filter (is_type ''keydown'') (events md))) / L)),
              (''rhythmConsistency'', Num (consistency r)),
              (''burstPattern'', Num bp),
              (''thinkingPauses'', Num (real (thinkingPauses r))),
              (''textComplexity'', calculateTextComplexity (finalText md)),
              (''wordLengthVariance'', Num w)])"
  have L: "0 < L" by (simp add: L_def)
  have PP: "P \<le> P'" unfolding P'_def by (rule foldl_pasteLength_mono[OF ps])
  define q where "q = P / L"
  define q' where "q' = P' / L"
  have f: "extractFeatures md = Some (F q)"
    by (simp add: extractFeatures_def Let_def r bp w js_div_def F_def P_def L_def q_def)
  have f': "extractFeatures (md\<lparr>events := events md @ ps\<rparr>) = Some (F q')"
    by (simp add: extractFeatures_def Let_def pastes_filter_nil[OF ps] r bp w js_div_def F_def
          P_def P'_def L_def q'_def)
  have pa: "aiProbability a = predictAIProbability (F q)"
    using a by (simp add: analyzeForAI_def f Let_def) auto
  have pa': "aiProbability a' = predictAIProbability (F q')"
    using a' by (simp add: analyzeForAI_def f' Let_def) auto
  have same: "points_consistency (F q) = points_consistency (F q')"
     "points_burst (F q) = points_burst (F q')"
     "points_corrections (F q) = points_corrections (F q')"
     "points_density (F q) = points_density (F q')"
     "points_pauses (F q) = points_pauses (F q')"
    by (simp_all add: points_defs prop_less_def prop_greater_def F_def)
  have "q \<le> q'" unfolding q_def q'_def using PP L by (simp add: divide_right_mono)
  then have mono: "points_paste (F q) \<le> points_paste (F q')"
    by (simp add: points_paste_def prop_greater_def F_def)
  show ?thesis
    unfolding pa pa' predictAIProbability_points same using mono by simp
qed


text \<open>
  C8, as amended. Appending paste events whose \<^verbatim>\<open>pasteLength\<close> is not negative, all other
  events and the text being kept, never lowers the AI probability. It never raises the
  behavioural score either, provided that a log flagged for its typing speed before the
  append is still flagged after it: the appended events enter the session duration, hence
  the key rate that the speed check compares with 15.
\<close>

theorem appended_pastes_monotone:
  assumes "list_all (\<lambda>e. e_type e = ''paste'' \<and> 0 \<le> pasteLength_or_0 e) pastes"
    and "analyzeBiometrics metadata = Some before"
    and "analyzeBiometrics (metadata\<lparr>events := events metadata @ pastes\<rparr>) = Some after"
    and "analyzeForAI metadata = Some ai"
    and "analyzeForAI (metadata\<lparr>events := events metadata @ pastes\<rparr>) = Some ai'"
  shows "aiProbability ai \<le> aiProbability ai' \<and>
         ((''Unusually high typing speed detected'' \<in> set (anomalies before) \<longrightarrow>
           ''Unusually high typing speed detected'' \<in> set (anomalies after)) \<longrightarrow>
          humanScore after \<le> humanScore before)"
proof (intro conjI impI)
  show "aiProbability ai \<le> aiProbability ai'"
    using assms(1,4,5) by (rule aiProbability_pastes)
next
  assume still_flagged:
    "''Unusually high typing speed detected'' \<in> set (anomalies before) \<longrightarrow>
     ''Unusually high typing speed detected'' \<in> set (anomalies after)"
  show "humanScore after \<le> humanScore before"
  proof (rule humanScore_pastes[OF assms(1,2,3)])
    assume "''Unusually high typing speed detected'' \<in> set (anomalies before)"
    with still_flagged show "''Unusually high typing speed detected'' \<in> set (anomalies after)"
      by blast
  qed
qed

lemma show_nat_1: "show_nat (Suc 0) = ''1''"
  by code_simp

lemma pasted_biometrics:
  "analyzeBiometrics (sample_metadata [sample_event 5 950, paste_event 6 960 5]) =
     Some \<lparr>humanScore = 90, b_verdict = ''VERIFIED_HUMAN'',
            anomalies = [''Detected 1 paste events''],
            metrics = \<lparr>totalEvents = 2, keyEvents = 1, pasteEvents = 1, backspaceCount = 0,
                        averageTiming = 0, timingVariance = 0, sessionDuration = 1 / 100\<rparr>\<rparr>"
  by (simp add: sample_defs paste_event_def biometric_defs show_nat_1 Let_def
        split del: if_split)

lemma keyed_and_pasted_ai:
  "analyzeForAI (sample_metadata [sample_event 5 950, paste_event 6 960 5]) =
     Some \<lparr>aiProbability = 45, humanProbability = 55,
            redFlags = [''Significant paste operations detected''],
            features = [(''avgKeyInterval'', Num 0), (''timingVariance'', Num 0), (''maxPause'', Num 0),
                        (''minPause'', Num 0), (''backspaceRatio'', Num 0), (''pasteRatio'', Num 5),
                        (''eventDensity'', Num 1), (''rhythmConsistency'', Num 0),
                        (''burstPattern'', Num 0), (''thinkingPauses'', Num 0),
                        (''textComplexity'', Num 1), (''wordLengthVariance'', Num 0)],
            confidence = 10\<rparr>"
  by (simp add: sample_defs paste_event_def ai_defs Let_def split del: if_split)

lemma sample_with_paste:
  "(sample_metadata [sample_event 5 950])
     \<lparr>events := events (sample_metadata [sample_event 5 950]) @ [paste_event 6 960 5]\<rparr> =
   sample_metadata [sample_event 5 950, paste_event 6 960 5]"
  by (simp add: sample_metadata_def)

text \<open>One key, then a paste of five characters: the scores go from 100 to 90 and from 25 to 45.\<close>

theorem appended_pastes_monotone_witness:
  "list_all (\<lambda>e. e_type e = ''paste'' \<and> 0 \<le> pasteLength_or_0 e) [paste_event 6 960 5] \<and>
   map_option humanScore (analyzeBiometrics (sample_metadata [sample_event 5 950])) = Some 100 \<and>
   map_option humanScore
     (analyzeBiometrics (sample_metadata [sample_event 5 950, paste_event 6 960 5])) = Some 90 \<and>
   map_option aiProbability (analyzeForAI (sample_metadata [sample_event 5 950])) = Some 25 \<and>
   map_option aiProbability
     (analyzeForAI (sample_metadata [sample_event 5 950, paste_event 6 960 5])) = Some 45"
proof -
  have p: "list_all (\<lambda>e. e_type e = ''paste'' \<and> 0 \<le> pasteLength_or_0 e)
             [paste_event 6 960 5]"
    by (simp add: paste_event_def pasteLength_or_0_def)
  note after = pasted_biometrics[folded sample_with_paste]
  note ai' = keyed_and_pasted_ai[folded sample_with_paste]
  from appended_pastes_monotone[OF p sample_biometrics after sample_ai ai'] p
  show ?thesis
    by (simp add: sample_biometrics pasted_biometrics sample_ai keyed_and_pasted_ai)
qed

text \<open>
  C8 as stated fails for the behavioural score. Sixteen keys in 150 ms are penalised for
  their speed (16 keys over a duration floored at one second) and score 80. A paste event
  appended two seconds later stretches the session to two seconds, the rate falls to 8, the
  speed penalty of 20 goes and the paste penalty of 10 comes: the score rises to 90.
\<close>

theorem appended_paste_raises_behavioural_score:
  "map_option humanScore (analyzeBiometrics (sample_metadata rapid_keys)) = Some 80 \<and>
   map_option humanScore
     (analyzeBiometrics (sample_metadata (rapid_keys @ [paste_event 160 3000 5]))) = Some 90"
  by (simp add: sample_metadata_def rapid_keys_def key_at_def paste_event_def biometric_defs
        Let_def split del: if_split)


subsection \<open>Packaging, then analysing\<close>

lemma as_event_to_json: "as_event (to_json_event e) = Some e"
  by (simp add: as_event_def to_json_event_def)

lemma as_events_to_json: "as_events (map to_json_event es) = Some es"
  by (induction es) (simp_all add: as_event_to_json)

lemma detectTampering_events:
  assumes "events a = events b"
  shows "detectTampering a m c = detectTampering b m' c"
  unfolding detectTampering_def tamperWarnings_def assms by (rule refl)

lemma createHumanSignFile_members:
  assumes "createHumanSignFile createHash secretKey signedAt text metadata = Some z"
  shows "content_txt z = Some text \<and>
         (\<exists>s. metadata_json z =
            Doc (with_events (metadata\<lparr>contentHash := Some (createHash text), signature := Some s\<rparr>)
                   (map to_json_event (events metadata)))) \<and>
         (\<exists>mf. manifest_json z = Doc mf)"
  using assms by (auto simp: createHumanSignFile_def Let_def bind_eq_Some_conv)

lemma analyzeHumanSignFile_result:
  assumes "analyzeHumanSignFile createHash now file = Some (Inr r)"
  shows "\<exists>p. snd (readHumanSignFile now file) = Inr p \<and> content r = p_text p \<and>
           r_metadata r = p_metadata p \<and> r_manifest r = p_manifest p \<and>
           isTampered r = detectTampering (p_metadata p) (p_manifest p) (p_text p) \<and>
           isValid r = (verifyCryptographicIntegrity createHash now (p_metadata p) (p_manifest p) \<and>
                        \<not> isTampered r)"
  using assms
  by (auto simp: analyzeHumanSignFile_def Let_def bind_eq_Some_conv split: sum.splits)

lemma readHumanSignFile_parsed:
  assumes "snd (readHumanSignFile now \<lparr>file_size = n, loadAsync = Some z\<rparr>) = Inr p"
    and "content_txt z = Some text"
    and "metadata_json z = Doc (with_events md (map to_json_event es))"
  shows "p_text p = sanitizeContent text \<and> p_metadata p = with_events md es"
  using assms
  by (auto simp: reader_defs Let_def as_events_to_json with_events_def
        split: if_splits sum.splits member.splits)

lemma roundtrip_parsed:
  assumes "roundtrip createHash secretKey signedAt now size' text metadata = Some (Inr r)"
  shows "\<exists>s. content r = sanitizeContent text \<and>
           r_metadata r =
             with_events
               (metadata\<lparr>contentHash := Some (createHash text), signature := Some s\<rparr>)
               (events metadata) \<and>
           isTampered r = detectTampering (r_metadata r) (r_manifest r) (content r) \<and>
           isValid r =
             (verifyCryptographicIntegrity createHash now (r_metadata r) (r_manifest r) \<and>
              \<not> isTampered r)"
proof -
  from assms obtain z where
    z: "createHumanSignFile createHash secretKey signedAt text metadata = Some z" and
    a: "analyzeHumanSignFile createHash now \<lparr>file_size = size', loadAsync = Some z\<rparr> =
          Some (Inr r)"
    by (auto simp: roundtrip_def bind_eq_Some_conv)
  from createHumanSignFile_members[OF z] obtain s where
    c: "content_txt z = Some text" and
    m: "metadata_json z =
          Doc (with_events
                 (metadata\<lparr>contentHash := Some (createHash text), signature := Some s\<rparr>)
                 (map to_json_event (events metadata)))"
    by blast
  from analyzeHumanSignFile_result[OF a] obtain p where
    p: "snd (readHumanSignFile now \<lparr>file_size = size', loadAsync = Some z\<rparr>) = Inr p" and
    r: "content r = p_text p" "r_metadata r = p_metadata p" "r_manifest r = p_manifest p"
       "isTampered r = detectTampering (p_metadata p) (p_manifest p) (p_text p)"
       "isValid r =
          (verifyCryptographicIntegrity createHash now (p_metadata p) (p_manifest p) \<and>
           \<not> isTampered r)"
    by blast
  from readHumanSignFile_parsed[OF p c m] have
    q: "p_text p = sanitizeContent text"
       "p_metadata p =
          with_events
            (metadata\<lparr>contentHash := Some (createHash text), signature := Some s\<rparr>)
            (events metadata)"
    by simp_all
  show ?thesis
    by (rule exI[of _ s]) (simp add: r q)
qed

lemma createHumanSignFile_total:
  "createHumanSignFile createHash secretKey signedAt text metadata \<noteq> None"
proof -
  obtain b where "analyzeBiometrics (metadata\<lparr>contentHash := Some (createHash text),
      signature := Some (createSignature createHash signedAt
        (metadata\<lparr>contentHash := Some (createHash text)\<rparr>) secretKey)\<rparr>) = Some b"
    using analyzeBiometrics_total by blast
  then show ?thesis by (simp add: createHumanSignFile_def Let_def)
qed

lemma analyzeHumanSignFile_accepts:
  assumes "snd (readHumanSignFile now file) = Inr parsed"
  shows "\<exists>r. analyzeHumanSignFile createHash now file = Some (Inr r)"
proof -
  obtain b where b: "analyzeBiometrics (p_metadata parsed) = Some b"
    using analyzeBiometrics_total by blast
  obtain a where a: "analyzeForAI (p_metadata parsed) = Some a"
    using analyzeForAI_total by blast
  show ?thesis
    by (simp add: analyzeHumanSignFile_def assms Let_def a b)
qed

lemma roundtrip_accepted:
  assumes "validateEventStructure (map to_json_event (events metadata))"
    and "\<not> detectTimestampManipulation now (events metadata)"
    and "\<not> isReplayAttack now metadata"
    and "size' \<le> 10 * 1024 * 1024"
  shows "\<exists>r. roundtrip createHash secretKey signedAt now size' text metadata = Some (Inr r)"
proof -
  obtain z where z: "createHumanSignFile createHash secretKey signedAt text metadata = Some z"
    using createHumanSignFile_total by blast
  from createHumanSignFile_members[OF z] obtain s mf where
    c: "content_txt z = Some text" and
    m: "metadata_json z =
          Doc (with_events (metadata\<lparr>contentHash := Some (createHash text), signature := Some s\<rparr>)
                 (map to_json_event (events metadata)))" and
    f: "manifest_json z = Doc mf"
    by blast
  have "\<exists>p. snd (readHumanSignFile now \<lparr>file_size = size', loadAsync = Some z\<rparr>) = Inr p"
    using assms
    by (simp add: reader_defs c m f Let_def as_events_to_json with_events_def isReplayAttack_def)
  then obtain p where
    "snd (readHumanSignFile now \<lparr>file_size = size', loadAsync = Some z\<rparr>) = Inr p" by blast
  from analyzeHumanSignFile_accepts[OF this] show ?thesis
    by (simp add: roundtrip_def z)
qed

lemma sanitize_a: "sanitizeContent ''a'' = ''a''"
  by (simp add: sanitizeContent_def replace_char_def)

lemma analyzeHumanSignFile_total: "analyzeHumanSignFile createHash now file \<noteq> None"
proof (cases "snd (readHumanSignFile now file)")
  case (Inl c)
  then show ?thesis by (simp add: analyzeHumanSignFile_def)
next
  case (Inr parsed)
  from analyzeHumanSignFile_accepts[OF this] show ?thesis by auto
qed

lemma roundtrip_total:
  "roundtrip createHash secretKey signedAt now size' text metadata \<noteq> None"
proof -
  obtain z where z: "createHumanSignFile createHash secretKey signedAt text metadata = Some z"
    using createHumanSignFile_total by blast
  show ?thesis
    by (simp add: roundtrip_def z analyzeHumanSignFile_total)
qed

lemma createHumanSignFile_signed:
  assumes "createHumanSignFile createHash secretKey signedAt text metadata = Some z"
  shows "\<exists>mf. manifest_json z = Doc mf \<and> m_contentHash mf = Some (createHash text) \<and>
           m_signature mf =
             Some (createSignature createHash signedAt
                     (metadata\<lparr>contentHash := Some (createHash text)\<rparr>) secretKey)"
  using assms by (auto simp: createHumanSignFile_def Let_def bind_eq_Some_conv)

lemma readHumanSignFile_manifest:
  assumes "snd (readHumanSignFile now \<lparr>file_size = n, loadAsync = Some z\<rparr>) = Inr p"
    and "manifest_json z = Doc mf"
  shows "p_manifest p = mf"
  using assms
  by (auto simp: reader_defs Let_def split: if_splits sum.splits member.splits option.splits)

lemma roundtrip_manifest:
  assumes "roundtrip createHash secretKey signedAt now size' text metadata = Some (Inr r)"
  shows "m_contentHash (r_manifest r) = Some (createHash text) \<and>
         m_signature (r_manifest r) =
           Some (createSignature createHash signedAt
                   (metadata\<lparr>contentHash := Some (createHash text)\<rparr>) secretKey)"
proof -
  from assms obtain z where
    z: "createHumanSignFile createHash secretKey signedAt text metadata = Some z" and
    a: "analyzeHumanSignFile createHash now \<lparr>file_size = size', loadAsync = Some z\<rparr> =
          Some (Inr r)"
    by (auto simp: roundtrip_def bind_eq_Some_conv)
  from createHumanSignFile_signed[OF z] obtain mf where
    f: "manifest_json z = Doc mf" and
    h: "m_contentHash mf = Some (createHash text)" and
    s: "m_signature mf =
          Some (createSignature createHash signedAt
                  (metadata\<lparr>contentHash := Some (createHash text)\<rparr>) secretKey)"
    by blast
  from analyzeHumanSignFile_result[OF a] obtain p where
    p: "snd (readHumanSignFile now \<lparr>file_size = size', loadAsync = Some z\<rparr>) = Inr p" and
    r: "r_manifest r = p_manifest p"
    by blast
  from readHumanSignFile_manifest[OF p f] r h s show ?thesis
    by simp
qed

text \<open>
  What the analysis recovers from an unmodified archive, whenever it returns a result: the
  content is the sanitized text, events, final text and content hash of the metadata are
  those that were packaged, and the tamper flag is the outcome of the tamper heuristics on
  the original events and the sanitized text.
\<close>

lemma roundtrip_recovers:
  assumes "roundtrip createHash secretKey signedAt now size' text metadata = Some (Inr r)"
  shows "content r = sanitizeContent text \<and>
         events (r_metadata r) = events metadata \<and>
         finalText (r_metadata r) = finalText metadata \<and>
         sessionId (r_metadata r) = sessionId metadata \<and>
         contentHash (r_metadata r) = Some (createHash text) \<and>
         isTampered r = detectTampering metadata (r_manifest r) (sanitizeContent text) \<and>
         isValid r =
           (verifyCryptographicIntegrity createHash now (r_metadata r) (r_manifest r) \<and>
            \<not> isTampered r)"
proof -
  from roundtrip_parsed[OF assms] obtain s where
    c: "content r = sanitizeContent text" and
    m: "r_metadata r =
          with_events
            (metadata\<lparr>contentHash := Some (createHash text), signature := Some s\<rparr>)
            (events metadata)" and
    t0: "isTampered r = detectTampering (r_metadata r) (r_manifest r) (content r)" and
    v: "isValid r =
          (verifyCryptographicIntegrity createHash now (r_metadata r) (r_manifest r) \<and>
           \<not> isTampered r)"
    by blast
  have e: "events (r_metadata r) = events metadata"
    by (simp add: m with_events_def)
  have f: "finalText (r_metadata r) = finalText metadata"
    by (simp add: m with_events_def)
  have i: "sessionId (r_metadata r) = sessionId metadata"
    by (simp add: m with_events_def)
  have h: "contentHash (r_metadata r) = Some (createHash text)"
    by (simp add: m with_events_def)
  have t: "isTampered r = detectTampering metadata (r_manifest r) (sanitizeContent text)"
    unfolding t0 c by (rule detectTampering_events[OF e])
  from c e f i h t v show ?thesis
    by (intro conjI)
qed

text \<open>The signed string ends with the clock reading and a brace, and then the key.\<close>

lemma digit_char_not_brace: "d < 10 \<Longrightarrow> CHR ''}'' \<noteq> digit_char d"
proof
  assume d: "d < 10" and e: "CHR ''}'' = digit_char d"
  have "(of_char (digit_char d) :: nat) = of_char (CHR ''}'')"
    using e by simp
  then have "48 + d = (of_char (CHR ''}'') :: nat)"
    by (simp only: of_char_digit_char[OF d])
  then show False using d by simp
qed

lemma show_nat_no_brace: "CHR ''}'' \<notin> set (show_nat n)"
proof (induction n rule: show_nat.induct)
  case (1 n)
  show ?case
  proof (cases "n < 10")
    case True
    then show ?thesis
      by (subst show_nat.simps) (simp add: digit_char_not_brace)
  next
    case False
    have "n mod 10 < 10" by simp
    with False "1.IH" show ?thesis
      by (subst show_nat.simps) (simp add: digit_char_not_brace)
  qed
qed

lemma split_at_brace:
  assumes "a @ CHR ''}'' # k = b @ CHR ''}'' # k'"
    and "CHR ''}'' \<notin> set a" and "CHR ''}'' \<notin> set b"
  shows "k = k'"
  using assms
proof (induction a arbitrary: b)
  case Nil
  then show ?case by (cases b) auto
next
  case (Cons x a)
  then show ?case by (cases b) auto
qed

lemma signed_string_key:
  assumes "stringify_signatureData a md @ k = stringify_signatureData b md' @ k'"
    and "sessionId md = sessionId md'" and "contentHash md = contentHash md'"
    and "length (events md) = length (events md')"
    and "length (finalText md) = length (finalText md')"
  shows "k = k'"
proof -
  from assms have "show_nat a @ CHR ''}'' # k = show_nat b @ CHR ''}'' # k'"
    by (simp add: stringify_signatureData_def)
  then show ?thesis
    by (rule split_at_brace) (rule show_nat_no_brace)+
qed

lemma generateSecretKey_not_demo_key:
  "generateSecretKey keyTime uuid \<noteq> ''human_sign_demo_key_2024''"
  by (simp add: generateSecretKey_def Let_def)

text \<open>
  C1. The claim fails in the code. \<open>createHumanSignFile\<close> signs with the key it draws from
  \<open>generateSecretKey\<close>, which begins with \<^verbatim>\<open>hs_\<close>; \<open>verifyCryptographicIntegrity\<close> checks the
  signature with the fixed key \<^verbatim>\<open>human_sign_demo_key_2024\<close> (and \<open>createSignature\<close>, called
  again, reads the clock again). Under a digest without collisions the signature of an
  unmodified archive is therefore never verified: for every text, metadata, clock readings
  and archive size the analysis returns, and every result it returns has
  \<open>isValid = false\<close>, also when the clock has not moved and the tamper heuristics find
  nothing. The content of the result is the sanitized text.
\<close>

theorem roundtrip_is_never_valid:
  assumes "inj createHash"
  shows "roundtrip createHash (generateSecretKey keyTime uuid) signedAt now size' text metadata
           \<noteq> None \<and>
         (\<forall>r. roundtrip createHash (generateSecretKey keyTime uuid) signedAt now size' text
                 metadata = Some (Inr r) \<longrightarrow>
              \<not> isValid r \<and>
              \<not> verifyCryptographicIntegrity createHash now (r_metadata r) (r_manifest r) \<and>
              content r = sanitizeContent text)"
proof (intro conjI allI impI)
  show "roundtrip createHash (generateSecretKey keyTime uuid) signedAt now size' text metadata
          \<noteq> None"
    by (rule roundtrip_total)
next
  fix r
  assume rt: "roundtrip createHash (generateSecretKey keyTime uuid) signedAt now size' text
                metadata = Some (Inr r)"
  from roundtrip_recovers[OF rt] show "content r = sanitizeContent text"
    by blast
  from roundtrip_recovers[OF rt] have
    e: "events (r_metadata r) = events metadata" and
    f: "finalText (r_metadata r) = finalText metadata" and
    i: "sessionId (r_metadata r) = sessionId metadata" and
    h: "contentHash (r_metadata r) = Some (createHash text)" and
    v: "isValid r =
          (verifyCryptographicIntegrity createHash now (r_metadata r) (r_manifest r) \<and>
           \<not> isTampered r)"
    by blast+
  from roundtrip_manifest[OF rt] have
    mh: "m_contentHash (r_manifest r) = Some (createHash text)" and
    ms: "m_signature (r_manifest r) =
           Some (createSignature createHash signedAt
                   (metadata\<lparr>contentHash := Some (createHash text)\<rparr>)
                   (generateSecretKey keyTime uuid))"
    by blast+
  show c: "\<not> verifyCryptographicIntegrity createHash now (r_metadata r) (r_manifest r)"
  proof
    assume "verifyCryptographicIntegrity createHash now (r_metadata r) (r_manifest r)"
    then have "createSignature createHash signedAt
                 (metadata\<lparr>contentHash := Some (createHash text)\<rparr>)
                 (generateSecretKey keyTime uuid) =
               createSignature createHash now (r_metadata r) ''human_sign_demo_key_2024''"
      by (simp add: verifyCryptographicIntegrity_def mh ms verifySignature_def Let_def
            split: if_splits)
    then have "createHash
                 (stringify_signatureData signedAt
                    (metadata\<lparr>contentHash := Some (createHash text)\<rparr>) @
                  generateSecretKey keyTime uuid) =
               createHash
                 (stringify_signatureData now (r_metadata r) @ ''human_sign_demo_key_2024'')"
      by (simp only: createSignature_def Let_def)
    with assms have "stringify_signatureData signedAt
                       (metadata\<lparr>contentHash := Some (createHash text)\<rparr>) @
                     generateSecretKey keyTime uuid =
                     stringify_signatureData now (r_metadata r) @ ''human_sign_demo_key_2024''"
      by (simp only: inj_eq)
    then have "generateSecretKey keyTime uuid = ''human_sign_demo_key_2024''"
      by (rule signed_string_key) (simp_all add: e f i h)
    with generateSecretKey_not_demo_key show False
      by blast
  qed
  from c v show "\<not> isValid r"
    by simp
qed

text \<open>
  One key-down event \<open>a\<close> and the text \<open>a\<close>, signed and analysed at the same clock reading,
  with the identity in the place of the digest: nothing is flagged as tampered, the content
  comes back, and the result is not valid.
\<close>

theorem roundtrip_is_never_valid_witness:
  "inj (id :: string \<Rightarrow> string) \<and>
   map_option (map_sum id isValid)
     (roundtrip id (generateSecretKey 1000 ''123e4567-e89b-12d3-a456-426614174000'') 1000 1000
        500 ''a'' (sample_metadata [sample_event 5 950])) = Some (Inr False) \<and>
   map_option (map_sum id isTampered)
     (roundtrip id (generateSecretKey 1000 ''123e4567-e89b-12d3-a456-426614174000'') 1000 1000
        500 ''a'' (sample_metadata [sample_event 5 950])) = Some (Inr False) \<and>
   map_option (map_sum id content)
     (roundtrip id (generateSecretKey 1000 ''123e4567-e89b-12d3-a456-426614174000'') 1000 1000
        500 ''a'' (sample_metadata [sample_event 5 950])) = Some (Inr ''a'')"
proof -
  let ?k = "generateSecretKey 1000 ''123e4567-e89b-12d3-a456-426614174000''"
  have "\<exists>r. roundtrip id ?k 1000 1000 500 ''a'' (sample_metadata [sample_event 5 950]) =
          Some (Inr r)"
    by (rule roundtrip_accepted)
       (simp_all add: sample_defs to_json_event_def validate_defs detectTimestampManipulation_def
          isReplayAttack_def)
  then obtain r where
    r: "roundtrip id ?k 1000 1000 500 ''a'' (sample_metadata [sample_event 5 950]) =
          Some (Inr r)" by blast
  have "detectTampering (sample_metadata [sample_event 5 950]) (r_manifest r) ''a'' = False"
    using sample_untampered detectTampering_events[OF refl] by blast
  with roundtrip_recovers[OF r] have t: "\<not> isTampered r"
    by (simp add: sanitize_a)
  from roundtrip_is_never_valid [of id 1000 "''123e4567-e89b-12d3-a456-426614174000''" 1000 1000
      500 "''a''" "sample_metadata [sample_event 5 950]"] r
  have "\<not> isValid r \<and> content r = sanitizeContent ''a''"
    by simp
  with t show ?thesis
    by (simp add: r sanitize_a)
qed


end
